theory Spec2Isabelle
  imports Main
begin

section \<open>Strings\<close>

text \<open>
  A JavaScript string is a sequence of UTF-16 code units; \<open>.length\<close>, \<open>slice\<close>,
  \<open>lastIndexOf\<close> and the regular expressions of the source all count code units. A string
  is therefore a list of code units (numbers below 65536), and an ASCII literal of the
  source is written \<open>js ''...''\<close>.
\<close>

type_synonym jchar = nat
type_synonym jstring = "jchar list"

definition js :: "string \<Rightarrow> jstring" where
  "js s = map of_char s"

text \<open>\<open>String(n)\<close> for a non-negative integer: its decimal digits.\<close>

fun show_nat :: "nat \<Rightarrow> jstring" where
  "show_nat n = (if n < 10 then [48 + n] else show_nat (n div 10) @ [48 + n mod 10])"

declare show_nat.simps [simp del]

text \<open>\<open>s.startsWith(p)\<close>, \<open>s.endsWith(p)\<close> and \<open>s.includes(p)\<close>.\<close>

fun startsWith :: "jstring \<Rightarrow> jstring \<Rightarrow> bool" where
  "startsWith s [] = True"
| "startsWith [] (p # ps) = False"
| "startsWith (c # cs) (p # ps) = (c = p \<and> startsWith cs ps)"

definition endsWith :: "jstring \<Rightarrow> jstring \<Rightarrow> bool" where
  "endsWith s p = startsWith (rev s) (rev p)"

fun includes_str :: "jstring \<Rightarrow> jstring \<Rightarrow> bool" where
  "includes_str [] p = (p = [])"
| "includes_str (c # cs) p = (startsWith (c # cs) p \<or> includes_str cs p)"

section \<open>The data model (hooks/types.ts)\<close>

datatype item_type =
    T_banner | T_agent_header | T_tool | T_log | T_plan | T_agent_status
  | T_evaluator_header | T_evaluator_status | T_evaluation_summary
  | T_checkpoint_resume | T_code_snippet | T_active_task_panel | T_final_summary
  | T_model_text | T_code_result

text \<open>
  \<open>content: any\<close>: the payload shapes the handlers store. A text payload is optional
  because an agent event may carry no \<open>status\<close> text.
\<close>

datatype content =
    C_text "jstring option"
  | C_plan jstring bool bool "nat option"
  | C_task jstring nat
  | C_snippet jstring jstring bool bool
  | C_result jstring jstring
  | C_banner jstring bool

record CommittedItem =
  item_id :: jstring
  item_type :: item_type
  content :: content
  agentName :: "jstring option"
  isError :: "bool option"

datatype agent_status = Active | Complete

record AgentInfo =
  name :: jstring
  status :: agent_status
  statusText :: "jstring option"
  isStreaming :: bool

record TaskProgress =
  current :: nat
  total :: nat

record FileContent =
  fc_name :: jstring
  fc_content :: jstring

record RagStatusInfo =
  rag_status :: jstring
  rag_message :: jstring

datatype CheckpointMode =
  Checking | Prompt | Normal | Error | AutoResume | CompletedRunPrompt

datatype SystemStatus = Idle | Running | Completed

text \<open>The commands written to the worker's standard input, and the other outward actions.\<close>

datatype command =
    Cmd_check_checkpoint
  | Cmd_prompt jstring bool
  | Cmd_fresh_start
  | Cmd_archive_and_continue

datatype effect =
    Write command
  | WriteAfter nat command
  | Kill
  | Exit
  | ExitAfter nat
  | ClearScreen
  | ConsoleError jstring

section \<open>Regular expressions\<close>

text \<open>
  The regular expressions of the source use literals, character classes, sequence,
  alternation, the greedy quantifiers \<open>*\<close>, \<open>+\<close>, \<open>?\<close> and \<open>{1,3}\<close>, capture groups outside
  quantifiers, and the anchors \<open>^\<close> and \<open>$\<close>. A cursor is the reversed text before the
  current position, the text from it on, and the groups captured so far. \<open>rmatch r c\<close> lists
  the cursors a backtracking matcher reaches from \<open>c\<close>, in the order in which it tries them:
  its first element is the match JavaScript reports. A \<open>*\<close> iteration that consumes nothing
  is rejected, as the language specifies.
\<close>

datatype re =
    Chr "jchar \<Rightarrow> bool"
  | Cat re re
  | Alt re re
  | Star re
  | Opt re
  | Grp re
  | Bol
  | BolM
  | Eol
  | Eps

type_synonym cursor = "jstring \<times> jstring \<times> jstring list"

definition is_line_terminator :: "jchar \<Rightarrow> bool" where
  "is_line_terminator c = (c = 10 \<or> c = 13 \<or> c = 8232 \<or> c = 8233)"

function rmatch :: "re \<Rightarrow> cursor \<Rightarrow> cursor list"
  and star_step :: "re \<Rightarrow> nat \<Rightarrow> cursor \<Rightarrow> cursor list" where
  "rmatch (Chr p) (pre, suf, gs) =
     (case suf of [] \<Rightarrow> [] | c # cs \<Rightarrow> if p c then [(c # pre, cs, gs)] else [])"
| "rmatch (Cat a b) cur = concat (map (rmatch b) (rmatch a cur))"
| "rmatch (Alt a b) cur = rmatch a cur @ rmatch b cur"
| "rmatch (Star a) cur =
     concat (map (star_step a (length (fst (snd cur)))) (rmatch a cur)) @ [cur]"
| "rmatch (Opt a) cur = rmatch a cur @ [cur]"
| "rmatch (Grp a) (pre, suf, gs) =
     map (\<lambda>(pre', suf', gs'). (pre', suf', gs' @ [rev (take (length pre' - length pre) pre')]))
         (rmatch a (pre, suf, gs))"
| "rmatch Bol (pre, suf, gs) = (if pre = [] then [(pre, suf, gs)] else [])"
| "rmatch BolM (pre, suf, gs) =
     (case pre of [] \<Rightarrow> [(pre, suf, gs)]
      | c # cs \<Rightarrow> if is_line_terminator c then [(pre, suf, gs)] else [])"
| "rmatch Eol (pre, suf, gs) = (if suf = [] then [(pre, suf, gs)] else [])"
| "rmatch Eps cur = [cur]"
| "star_step a n c = (if length (fst (snd c)) < n then rmatch (Star a) c else [])"
  by pat_completeness auto
termination
  by (relation "inv_image (less_than <*lex*> less_than)
        (\<lambda>x. case x of
           Inl (r, c) \<Rightarrow> (size r, 2 * length (fst (snd c)) + 1)
         | Inr (a, n, c) \<Rightarrow> (size (Star a), 2 * n))") auto

text \<open>Character classes: \<open>\s\<close> (also the characters \<open>trim()\<close> removes), \<open>\d\<close>, \<open>\w\<close>.\<close>

definition is_space :: "jchar \<Rightarrow> bool" where
  "is_space c =
     (c = 9 \<or> c = 10 \<or> c = 11 \<or> c = 12 \<or> c = 13 \<or> c = 32 \<or> c = 160 \<or> c = 5760 \<or>
      (8192 \<le> c \<and> c \<le> 8202) \<or> c = 8232 \<or> c = 8233 \<or> c = 8239 \<or> c = 8287 \<or>
      c = 12288 \<or> c = 65279)"

definition is_digit :: "jchar \<Rightarrow> bool" where
  "is_digit c = (48 \<le> c \<and> c \<le> 57)"

definition is_word :: "jchar \<Rightarrow> bool" where
  "is_word c = ((65 \<le> c \<and> c \<le> 90) \<or> (97 \<le> c \<and> c \<le> 122) \<or> is_digit c \<or> c = 95)"

definition Lit :: "jchar \<Rightarrow> re" where
  "Lit c = Chr (\<lambda>x. x = c)"

definition NotLit :: "jchar \<Rightarrow> re" where
  "NotLit c = Chr (\<lambda>x. (if x = c then False else True))"

text \<open>An ASCII letter under the flag \<open>i\<close>: either case.\<close>

definition LitI :: "jchar \<Rightarrow> jchar \<Rightarrow> re" where
  "LitI lo up = Chr (\<lambda>x. x = lo \<or> x = up)"

fun Lits :: "jstring \<Rightarrow> re" where
  "Lits [] = Eps"
| "Lits (c # cs) = Cat (Lit c) (Lits cs)"

definition Plus :: "re \<Rightarrow> re" where
  "Plus a = Cat a (Star a)"

definition Rep13 :: "re \<Rightarrow> re" where
  "Rep13 a = Cat a (Opt (Cat a (Opt a)))"

text \<open>A sequence of expressions, written as a list.\<close>

fun Seq :: "re list \<Rightarrow> re" where
  "Seq [] = Eps"
| "Seq (r # rs) = Cat r (Seq rs)"

text \<open>
  \<open>re_search r pre s\<close>: the leftmost match of \<open>r\<close> in \<open>s\<close>, which follows the reversed text
  \<open>pre\<close>: the reversed text before the match, the matched text, the groups and the rest.
\<close>

type_synonym rematch = "jstring \<times> jstring \<times> jstring list \<times> jstring"

fun re_search :: "re \<Rightarrow> jstring \<Rightarrow> jstring \<Rightarrow> rematch option" where
  "re_search r pre [] =
     (case rmatch r (pre, [], []) of
        [] \<Rightarrow> None
      | (pre', suf', gs) # _ \<Rightarrow> Some (pre, [], gs, []))"
| "re_search r pre (c # cs) =
     (case rmatch r (pre, c # cs, []) of
        [] \<Rightarrow> re_search r (c # pre) cs
      | (pre', suf', gs) # _ \<Rightarrow> Some (pre, take (length pre' - length pre) (c # cs), gs, suf'))"

definition re_test :: "re \<Rightarrow> jstring \<Rightarrow> bool" where
  "re_test r s = (case re_search r [] s of None \<Rightarrow> False | Some m \<Rightarrow> True)"

text \<open>
  \<open>s.replace(r, f)\<close> for an expression without the flag \<open>g\<close>: the first match is replaced
  by \<open>f match groups offset\<close>.
\<close>

definition replace_first :: "re \<Rightarrow> (jstring \<Rightarrow> jstring list \<Rightarrow> nat \<Rightarrow> jstring) \<Rightarrow> jstring \<Rightarrow> jstring" where
  "replace_first r f s =
     (case re_search r [] s of
        None \<Rightarrow> s
      | Some (pre, m, gs, rest) \<Rightarrow> rev pre @ f m gs (length pre) @ rest)"

text \<open>
  \<open>s.replace(r, f)\<close> with the flag \<open>g\<close>: every match, left to right, the search resuming
  where the last match ended (one character further after an empty match). \<open>skip\<close> counts
  the characters of the current match still to pass.
\<close>

fun replace_all_from ::
  "re \<Rightarrow> (jstring \<Rightarrow> jstring list \<Rightarrow> nat \<Rightarrow> jstring) \<Rightarrow> jstring \<Rightarrow> nat \<Rightarrow> jstring \<Rightarrow> jstring" where
  "replace_all_from r f pre skip [] =
     (if 0 < skip then []
      else (case rmatch r (pre, [], []) of
              [] \<Rightarrow> []
            | (pre', suf', gs) # _ \<Rightarrow> f [] gs (length pre)))"
| "replace_all_from r f pre skip (c # cs) =
     (if 0 < skip then replace_all_from r f (c # pre) (skip - 1) cs
      else (case rmatch r (pre, c # cs, []) of
              [] \<Rightarrow> c # replace_all_from r f (c # pre) 0 cs
            | (pre', suf', gs) # _ \<Rightarrow>
                (if length pre' = length pre
                 then f [] gs (length pre) @ c # replace_all_from r f (c # pre) 0 cs
                 else f (take (length pre' - length pre) (c # cs)) gs (length pre)
                      @ replace_all_from r f (c # pre) (length pre' - length pre - 1) cs)))"

definition replace_all :: "re \<Rightarrow> (jstring \<Rightarrow> jstring list \<Rightarrow> nat \<Rightarrow> jstring) \<Rightarrow> jstring \<Rightarrow> jstring" where
  "replace_all r f s = replace_all_from r f [] 0 s"

text \<open>A replacement that is a fixed string.\<close>

definition const_repl :: "jstring \<Rightarrow> jstring \<Rightarrow> jstring list \<Rightarrow> nat \<Rightarrow> jstring" where
  "const_repl t m gs off = t"

text \<open>\<open>s.trim()\<close>, \<open>s.slice(a, b)\<close> for \<open>0 \<le> a\<close> and \<open>0 \<le> b\<close>, and \<open>xs.join(sep)\<close>.\<close>

definition trim :: "jstring \<Rightarrow> jstring" where
  "trim s = rev (dropWhile is_space (rev (dropWhile is_space s)))"

definition slice :: "nat \<Rightarrow> nat \<Rightarrow> jstring \<Rightarrow> jstring" where
  "slice a b s = take (b - a) (drop a s)"

fun join :: "jstring \<Rightarrow> jstring list \<Rightarrow> jstring" where
  "join sep [] = []"
| "join sep [x] = x"
| "join sep (x # y # ys) = x @ sep @ join sep (y # ys)"

section \<open>State helpers (utils/stateHelpers.ts)\<close>

text \<open>
  \<open>cleanTaskDescription\<close>: the first line, trimmed; every \<open>**\<close> removed, then a leading
  and a trailing \<open>*\<close>; the prefix \<open>/^(?:#+\s*)?Task\s+\d+[...]\s*/i\<close> removed; then leading
  hashes. The class after the digits holds the colon and the three characters U+00EF,
  U+00BC and U+0161 that the source file has there; under the flag \<open>i\<close> U+00CF and U+0160
  match as well.
\<close>

definition task_word :: re where
  "task_word = Cat (LitI 116 84) (Cat (LitI 97 65) (Cat (LitI 115 83) (LitI 107 75)))"

definition clean_task_re :: re where
  "clean_task_re =
     Cat Bol (Cat (Opt (Cat (Plus (Lit 35)) (Star (Chr is_space))))
       (Cat task_word (Cat (Plus (Chr is_space)) (Cat (Plus (Chr is_digit))
         (Cat (Chr (\<lambda>c. c = 58 \<or> c = 239 \<or> c = 207 \<or> c = 188 \<or> c = 353 \<or> c = 352))
              (Star (Chr is_space)))))))"

definition cleanTaskDescription :: "jstring \<Rightarrow> jstring" where
  "cleanTaskDescription rawTask =
     (let text = trim (takeWhile (\<lambda>c. (if c = 10 then False else True)) rawTask);
          text = replace_all (Cat (Lit 42) (Lit 42)) (const_repl []) text;
          text = replace_all (Alt (Cat Bol (Lit 42)) (Cat (Lit 42) Eol)) (const_repl []) text;
          text = trim (replace_first clean_task_re (const_repl []) text);
          text = trim (replace_first (Cat Bol (Cat (Plus (Lit 35)) (Star (Chr is_space)))) (const_repl []) text)
      in text)"


section \<open>The session state of the Run component (commands/Run.tsx)\<close>

text \<open>
  The React state variables and refs of \<open>Run\<close>, one field each. \<open>now\<close> is the clock
  \<open>Date.now()\<close> reads, in milliseconds; a timer reference holds the deadline of the pending
  timer, if any. \<open>bridgeRef\<close> tells whether the reference holds a subprocess handle.
  \<open>parsedPlan\<close> stands for the state variable and for \<open>parsedPlanRef\<close>, which an effect
  copies from it after every change. \<open>effects\<close> lists the outward actions in order.
\<close>

record session =
  messages :: "(jstring \<times> jstring) list"
  sstatus :: "jstring option"
  isLoading :: bool
  modelName :: jstring
  ragStatus :: "RagStatusInfo option"
  isSystemReady :: bool
  showMainUI :: bool
  systemStatus :: SystemStatus
  agents :: "AgentInfo list"
  planContent :: jstring
  isPlanComplete :: bool
  activeFileContentRef :: "FileContent option"
  lastCodeResultIsErrorRef :: bool
  taskProgress :: "TaskProgress option"
  taskProgressRef :: "TaskProgress option"
  committedItems :: "CommittedItem list"
  bannerCommitted :: bool
  checkpointMode :: CheckpointMode
  previousInput :: jstring
  escPressedOnce :: bool
  showInterruptWarning :: bool
  isInterruptedRef :: bool
  escTimeoutRef :: "nat option"
  exitPressedOnce :: bool
  showExitWarning :: bool
  exitTimeoutRef :: "nat option"
  bridgeRef :: bool
  bridgeRestartCounter :: nat
  itemIdCounterRef :: nat
  parsedPlan :: "jstring list"
  staticKey :: nat
  now :: nat
  effects :: "effect list"

text \<open>
  \<open>s.toLowerCase()\<close> on the letters that matter to the comparisons of the source (with
  \<open>exit\<close>, \<open>yes\<close>, \<open>no\<close>, \<open>executed\<close>, \<open>guidance:\<close>): the ASCII capitals, and the Kelvin
  sign U+212A, which lowers to \<open>k\<close>.
\<close>

definition lower_char :: "jchar \<Rightarrow> jchar" where
  "lower_char c = (if 65 \<le> c \<and> c \<le> 90 then c + 32 else if c = 8490 then 107 else c)"

definition toLowerCase :: "jstring \<Rightarrow> jstring" where
  "toLowerCase s = map lower_char s"

text \<open>
  \<open>applyFreshStartState\<close> and \<open>applyInterruptResetState\<close>: each setter call is one field
  update. The interrupt reset ends with \<open>isInterruptedRef.current = false\<close>.
\<close>

definition applyFreshStartState :: "session \<Rightarrow> session" where
  "applyFreshStartState s =
     s\<lparr>previousInput := [], taskProgress := None, taskProgressRef := None,
       committedItems := [], bannerCommitted := False, planContent := [],
       isPlanComplete := False, agents := [], activeFileContentRef := None,
       systemStatus := Idle, itemIdCounterRef := 0\<rparr>"

definition applyInterruptResetState :: "session \<Rightarrow> session" where
  "applyInterruptResetState s =
     s\<lparr>isLoading := False, sstatus := None, showMainUI := False, isSystemReady := False,
       checkpointMode := Checking, systemStatus := Idle, agents := [], planContent := [],
       isPlanComplete := False, taskProgress := None, isInterruptedRef := False\<rparr>"

text \<open>\<open>generateUniqueId\<close> (utils/helpers.ts): the counter is incremented, then read.\<close>

definition generateUniqueId :: "jstring \<Rightarrow> nat \<Rightarrow> nat \<Rightarrow> jstring" where
  "generateUniqueId prefix tnow counter =
     prefix @ js ''-'' @ show_nat tnow @ js ''-'' @ show_nat (counter + 1)"

section \<open>Header de-duplication (ensureHeader, commands/Run.tsx)\<close>

text \<open>
  \<open>ensureHeader plan tnow items agentName taskNum\<close>: \<open>plan\<close> is \<open>parsedPlanRef.current\<close> and
  \<open>tnow\<close> the value \<open>Date.now()\<close> returns. A task number is a non-negative integer;
  \<open>None\<close> is \<open>undefined\<close>. In the reviewer branch the source tests the truthiness of
  \<open>taskNum\<close>, so \<open>0\<close> counts as absent there. For task number \<open>0\<close> the plan index \<open>-1\<close>
  reads \<open>undefined\<close>, and no task panel is added.
\<close>

definition header_item :: "jstring \<Rightarrow> item_type \<Rightarrow> jstring \<Rightarrow> CommittedItem" where
  "header_item hid ty agent =
     \<lparr>item_id = hid, item_type = ty, content = C_text (Some agent),
      agentName = Some agent, isError = None\<rparr>"

definition task_panel_item :: "jstring \<Rightarrow> jstring \<Rightarrow> nat \<Rightarrow> CommittedItem" where
  "task_panel_item pid rawTask taskNum =
     \<lparr>item_id = pid, item_type = T_active_task_panel,
      content = C_task (cleanTaskDescription rawTask) taskNum,
      agentName = Some (js ''operator''), isError = None\<rparr>"

definition has_id :: "jstring \<Rightarrow> CommittedItem list \<Rightarrow> bool" where
  "has_id i items = list_ex (\<lambda>item. item_id item = i) items"

definition ensureHeader ::
  "jstring list \<Rightarrow> nat \<Rightarrow> CommittedItem list \<Rightarrow> jstring \<Rightarrow> nat option \<Rightarrow> CommittedItem list" where
  "ensureHeader plan tnow items agent taskNum =
     (case (if agent = js ''operator'' then taskNum else None) of
        Some n \<Rightarrow>
          (let headerId = agent @ js ''-header-task'' @ show_nat n in
           if has_id headerId items then items
           else if (case items of [] \<Rightarrow> False
                    | _ # _ \<Rightarrow> agentName (last items) = Some (js ''operator'') \<and> n = 1)
                then items
           else if n = 1 \<and> has_id (agent @ js ''-header'') items then items
           else
             (let newItems = items @ [header_item headerId T_agent_header agent] in
              if n \<le> length plan \<and> 0 < n \<and> plan ! (n - 1) \<noteq> []
              then newItems @ [task_panel_item (agent @ js ''-task-panel-'' @ show_nat n) (plan ! (n - 1)) n]
              else newItems))
      | None \<Rightarrow>
          (if agent = js ''evaluator'' then
             (let truthy = (case taskNum of None \<Rightarrow> False | Some n \<Rightarrow> 0 < n);
                  n = (case taskNum of None \<Rightarrow> 0 | Some n \<Rightarrow> n);
                  evaluatorHeaderForThisTask =
                    (if truthy
                     then list_ex (\<lambda>item. item_type item = T_evaluator_header \<and>
                                     includes_str (item_id item) (js ''task'' @ show_nat n)) items
                     else list_ex (\<lambda>item. item_type item = T_evaluator_header) items)
              in if evaluatorHeaderForThisTask then items
                 else
                   (let headerId = (if truthy then js ''evaluator-header-task'' @ show_nat n
                                    else js ''evaluator-header-'' @ show_nat tnow)
                    in items @ [header_item headerId T_evaluator_header agent]))
           else
             (let headerId = agent @ js ''-header'' in
              if has_id headerId items then items
              else items @ [header_item headerId T_agent_header agent])))"

section \<open>The key handler and its timers (useInput, commands/Run.tsx)\<close>

text \<open>
  A key press is the \<open>input\<close> string and the flags \<open>key.ctrl\<close> and \<open>key.escape\<close>. The
  handler reads the state of the render it was created in; the model reads the current
  state. It is registered only in interactive mode (no prompt on the command line).
  The text of the interrupted entry starts with U+2717.
\<close>

record key =
  ctrl :: bool
  escape :: bool

definition interrupted_item :: "nat \<Rightarrow> jstring \<Rightarrow> CommittedItem" where
  "interrupted_item tnow agent =
     \<lparr>item_id = js ''interrupt-'' @ show_nat tnow, item_type = T_log,
      content = C_text (Some (10007 # js '' Run Interrupted'')),
      agentName = Some agent, isError = None\<rparr>"

definition kill_bridge :: "session \<Rightarrow> session" where
  "kill_bridge s =
     (if bridgeRef s then s\<lparr>effects := effects s @ [Kill], bridgeRef := False\<rparr> else s)"

definition interrupt :: "session \<Rightarrow> session" where
  "interrupt s =
     (let s1 = s\<lparr>escTimeoutRef := None, escPressedOnce := False, showInterruptWarning := False\<rparr>;
          s2 = s1\<lparr>committedItems :=
                  (case find (\<lambda>a. status a = Active) (agents s) of
                     Some activeAgent \<Rightarrow>
                       committedItems s @ [interrupted_item (now s) (name activeAgent)]
                   | None \<Rightarrow> committedItems s)\<rparr>;
          s3 = applyInterruptResetState (kill_bridge s2)
      in s3\<lparr>bridgeRestartCounter := bridgeRestartCounter s + 1\<rparr>)"

definition useInput_handler :: "jstring \<Rightarrow> key \<Rightarrow> session \<Rightarrow> session" where
  "useInput_handler input k s =
     (if (ctrl k \<and> input = js ''c'') \<or> input = [4] then
        (if \<not> isLoading s then
           (if exitPressedOnce s then
              s\<lparr>exitTimeoutRef := None, exitPressedOnce := False, showExitWarning := False,
                effects := effects s @ [Exit]\<rparr>
            else
              s\<lparr>exitPressedOnce := True, showExitWarning := True,
                exitTimeoutRef := Some (now s + 3000)\<rparr>)
         else s)
      else if \<not> isLoading s then
        (if escPressedOnce s then s\<lparr>escPressedOnce := False, showInterruptWarning := False\<rparr>
         else s)
      else if escape k then
        (if escPressedOnce s then interrupt s
         else s\<lparr>escPressedOnce := True, showInterruptWarning := True,
                escTimeoutRef := Some (now s + 3000)\<rparr>)
      else s)"

text \<open>
  Time passes: the clock advances by \<open>d\<close> milliseconds, and a pending timer whose deadline
  is reached runs its callback, which clears the two flags of its gesture.
\<close>

definition fire_esc_timer :: "session \<Rightarrow> session" where
  "fire_esc_timer s =
     (case escTimeoutRef s of
        None \<Rightarrow> s
      | Some deadline \<Rightarrow>
          if deadline \<le> now s
          then s\<lparr>escPressedOnce := False, showInterruptWarning := False, escTimeoutRef := None\<rparr>
          else s)"

definition fire_exit_timer :: "session \<Rightarrow> session" where
  "fire_exit_timer s =
     (case exitTimeoutRef s of
        None \<Rightarrow> s
      | Some deadline \<Rightarrow>
          if deadline \<le> now s
          then s\<lparr>exitPressedOnce := False, showExitWarning := False, exitTimeoutRef := None\<rparr>
          else s)"

definition elapse :: "nat \<Rightarrow> session \<Rightarrow> session" where
  "elapse d s = fire_exit_timer (fire_esc_timer (s\<lparr>now := now s + d\<rparr>))"

text \<open>
  The initial values of the state variables and refs, with no model name in the
  environment and the clock at \<open>0\<close>.
\<close>

definition initial_session :: session where
  "initial_session =
     \<lparr>messages = [], sstatus = None, isLoading = False, modelName = [], ragStatus = None,
      isSystemReady = False, showMainUI = False, systemStatus = Idle, agents = [],
      planContent = [], isPlanComplete = False, activeFileContentRef = None,
      lastCodeResultIsErrorRef = False, taskProgress = None, taskProgressRef = None,
      committedItems = [], bannerCommitted = False, checkpointMode = Checking,
      previousInput = [], escPressedOnce = False, showInterruptWarning = False,
      isInterruptedRef = False, escTimeoutRef = None, exitPressedOnce = False,
      showExitWarning = False, exitTimeoutRef = None, bridgeRef = False,
      bridgeRestartCounter = 0, itemIdCounterRef = 0, parsedPlan = [], staticKey = 0,
      now = 0, effects = []\<rparr>"

section \<open>Checkpoint reconstruction (handlers/checkpointHandler.ts)\<close>

text \<open>
  The history of a \<open>checkpoint_info\<close> payload. An item list or a summary is looked up by
  the task index; an absent object is the empty map. A recorded item carries its type,
  its content and, optionally, an error flag.
\<close>

record recorded_item =
  ri_type :: item_type
  ri_content :: content
  ri_isError :: "bool option"

record history =
  h_plan :: "jstring list option"
  h_full_plan_text :: "jstring option"
  h_completed_steps :: "jstring list option"
  h_operator_items_by_task :: "nat \<Rightarrow> recorded_item list option"
  h_evaluator_items_by_task :: "nat \<Rightarrow> recorded_item list option"
  h_step_results :: "nat \<Rightarrow> jstring option"
  h_current_task :: "nat option"
  h_total_tasks :: "nat option"

record checkpoint_payload =
  cp_exists :: bool
  cp_previous_input :: "jstring option"
  cp_history :: "history option"

text \<open>\<open>x || []\<close> and \<open>x || ''\<close> for an optional list or string.\<close>

definition or_empty :: "'a list option \<Rightarrow> 'a list" where
  "or_empty x = (case x of None \<Rightarrow> [] | Some v \<Rightarrow> v)"

text \<open>
  The three loops over recorded items: item \<open>j\<close> of task \<open>taskNum\<close> is pushed with the id
  \<open>agent-item-task<taskNum>-<j>-history\<close>. The loop over the reviewer items of a completed
  task does not copy the error flag; the other two do.
\<close>

fun push_recorded ::
  "jstring \<Rightarrow> nat \<Rightarrow> bool \<Rightarrow> recorded_item list \<Rightarrow> nat \<Rightarrow> CommittedItem list \<Rightarrow> CommittedItem list" where
  "push_recorded agent taskNum keepError [] j newItems = newItems"
| "push_recorded agent taskNum keepError (item # rest) j newItems =
     push_recorded agent taskNum keepError rest (j + 1)
       (newItems @
        [\<lparr>item_id = agent @ js ''-item-task'' @ show_nat taskNum @ js ''-'' @ show_nat j @ js ''-history'',
          item_type = ri_type item, content = ri_content item, agentName = Some agent,
          isError = (if keepError then ri_isError item else None)\<rparr>])"

text \<open>The task panel pushed after a primary-worker header, when the plan has a non-empty entry.\<close>

definition push_task_panel :: "history \<Rightarrow> nat \<Rightarrow> CommittedItem list \<Rightarrow> CommittedItem list" where
  "push_task_panel h taskNum newItems =
     (case h_plan h of
        None \<Rightarrow> newItems
      | Some plan \<Rightarrow>
          if taskNum \<le> length plan \<and> 0 < taskNum \<and> plan ! (taskNum - 1) \<noteq> []
          then newItems @
               [task_panel_item (js ''operator-task-panel-'' @ show_nat taskNum @ js ''-history'')
                  (plan ! (taskNum - 1)) taskNum]
          else newItems)"

definition text_item :: "jstring \<Rightarrow> item_type \<Rightarrow> jstring \<Rightarrow> jstring \<Rightarrow> CommittedItem" where
  "text_item iid ty txt agent =
     \<lparr>item_id = iid, item_type = ty, content = C_text (Some txt), agentName = Some agent,
      isError = None\<rparr>"

text \<open>The body of the loop over the completed tasks, for index \<open>i\<close>.\<close>

definition completed_task_body :: "history \<Rightarrow> nat \<Rightarrow> CommittedItem list \<Rightarrow> CommittedItem list" where
  "completed_task_body h i newItems =
     (let taskNum = i + 1;
          newItems = newItems @
            [header_item (js ''operator-header-task'' @ show_nat taskNum @ js ''-history'')
               T_agent_header (js ''operator'')];
          newItems = push_task_panel h taskNum newItems;
          opItems = or_empty (h_operator_items_by_task h i);
          newItems = push_recorded (js ''operator'') taskNum True opItems 0 newItems;
          newItems = newItems @
            [header_item (js ''evaluator-header-task'' @ show_nat taskNum @ js ''-history'')
               T_evaluator_header (js ''evaluator'')];
          evalItems = or_empty (h_evaluator_items_by_task h i);
          newItems = push_recorded (js ''evaluator'') taskNum False evalItems 0 newItems;
          newItems =
            (case h_step_results h i of
               None \<Rightarrow> newItems
             | Some summary \<Rightarrow>
                 if summary = [] then newItems
                 else newItems @
                   [text_item (js ''evaluation-summary-task'' @ show_nat taskNum @ js ''-history'')
                      T_evaluation_summary summary (js ''evaluator'')])
      in newItems @
           [text_item (js ''evaluator-status-task'' @ show_nat taskNum @ js ''-history'')
              T_evaluator_status (js ''Evaluation Passed'') (js ''evaluator'')])"

function completed_tasks_loop ::
  "history \<Rightarrow> nat \<Rightarrow> nat \<Rightarrow> CommittedItem list \<Rightarrow> CommittedItem list" where
  "completed_tasks_loop h i completedCount newItems =
     (if i < completedCount
      then completed_tasks_loop h (i + 1) completedCount (completed_task_body h i newItems)
      else newItems)"
  by pat_completeness auto
termination
  by (relation "measure (\<lambda>(h, i, completedCount, newItems). completedCount - i)") auto

declare completed_tasks_loop.simps [simp del]

definition count_char :: "jchar \<Rightarrow> jstring \<Rightarrow> nat" where
  "count_char c s = length (filter (\<lambda>x. x = c) s)"

text \<open>
  \<open>buildHistoryItems\<close> in its three parts: the plan items, the loop over the completed
  tasks, and the items of the task in progress.
\<close>

definition history_plan_items :: "history \<Rightarrow> CommittedItem list" where
  "history_plan_items h =
     (let planContent =
            (if (case h_plan h of None \<Rightarrow> False | Some plan \<Rightarrow> 0 < length plan)
             then join [10, 10] (or_empty (h_plan h))
             else or_empty (h_full_plan_text h))
      in if planContent = [] then []
         else [header_item (js ''strategist-header'') T_agent_header (js ''strategist''),
               \<lparr>item_id = js ''checkpoint-history-plan'', item_type = T_plan,
                content = C_plan planContent True False (Some (count_char 10 planContent + 1)),
                agentName = Some (js ''strategist''), isError = None\<rparr>,
               text_item (js ''strategist-complete'') T_agent_status
                 (js ''Created Execution Plan'') (js ''strategist'')])"

definition remaining_task_items :: "history \<Rightarrow> nat \<Rightarrow> CommittedItem list \<Rightarrow> CommittedItem list" where
  "remaining_task_items h completedCount newItems =
     (let currentTaskNum = completedCount + 1;
          remainingOpItems = or_empty (h_operator_items_by_task h completedCount)
      in if 0 < length remainingOpItems then
           (let newItems = newItems @
                  [header_item (js ''operator-header-task'' @ show_nat currentTaskNum @ js ''-history'')
                     T_agent_header (js ''operator'')];
                newItems = push_task_panel h currentTaskNum newItems;
                newItems = push_recorded (js ''operator'') currentTaskNum True remainingOpItems 0 newItems;
                remainingEvalItems = or_empty (h_evaluator_items_by_task h completedCount)
            in if 0 < length remainingEvalItems then
                 push_recorded (js ''evaluator'') currentTaskNum True remainingEvalItems 0
                   (newItems @
                    [header_item (js ''evaluator-header-task'' @ show_nat currentTaskNum @ js ''-history'')
                       T_evaluator_header (js ''evaluator'')])
               else newItems)
         else newItems)"

definition buildHistoryItems :: "history \<Rightarrow> CommittedItem list" where
  "buildHistoryItems h =
     (let completedCount = length (or_empty (h_completed_steps h))
      in remaining_task_items h completedCount
           (completed_tasks_loop h 0 completedCount (history_plan_items h)))"

definition hasStrategistContent :: "CommittedItem list \<Rightarrow> bool" where
  "hasStrategistContent items =
     list_ex (\<lambda>item.
        item_id item = js ''strategist-header'' \<or>
        item_id item = js ''execution-plan-complete'' \<or>
        item_id item = js ''checkpoint-history-plan'' \<or>
        (item_type item = T_agent_header \<and> agentName item = Some (js ''strategist'')) \<or>
        (item_type item = T_plan \<and> agentName item = Some (js ''strategist''))) items"

text \<open>
  The settings read from the environment and the command line: \<open>IF_RESTART\<close> (one of
  true, 1, yes, on), the \<open>restart\<close> flag, and whether a prompt was given as arguments.
\<close>

record config =
  restartFromEnv :: bool
  flagsRestart :: bool
  directArgsUsed :: bool

definition restored_plan :: "history \<Rightarrow> session \<Rightarrow> jstring list" where
  "restored_plan h s =
     (case h_plan h of
        None \<Rightarrow> parsedPlan s
      | Some plan \<Rightarrow> if 0 < length plan then plan else parsedPlan s)"

definition restored_items :: "history \<Rightarrow> CommittedItem list \<Rightarrow> CommittedItem list" where
  "restored_items h prev =
     (if hasStrategistContent prev then prev else prev @ buildHistoryItems h)"

definition restored_progress :: "history \<Rightarrow> TaskProgress option" where
  "restored_progress h =
     (case h_current_task h of
        None \<Rightarrow> None
      | Some c \<Rightarrow>
          (case h_total_tasks h of
             None \<Rightarrow> None
           | Some t \<Rightarrow> if 0 < c \<and> 0 < t then Some \<lparr>current = c, total = t\<rparr> else None))"

definition restore_history :: "history \<Rightarrow> session \<Rightarrow> session" where
  "restore_history h s =
     s\<lparr>parsedPlan := restored_plan h s,
       committedItems := restored_items h (committedItems s),
       taskProgress := (case restored_progress h of None \<Rightarrow> taskProgress s | Some tp \<Rightarrow> Some tp),
       taskProgressRef := (case restored_progress h of None \<Rightarrow> taskProgressRef s | Some tp \<Rightarrow> Some tp)\<rparr>"

definition handleCheckpointInfo :: "config \<Rightarrow> checkpoint_payload \<Rightarrow> session \<Rightarrow> session" where
  "handleCheckpointInfo cfg payload s =
     (let s1 = (case cp_history payload of None \<Rightarrow> s | Some h \<Rightarrow> restore_history h s) in
      if restartFromEnv cfg then
        (if cp_exists payload then
           s1\<lparr>checkpointMode := AutoResume, previousInput := or_empty (cp_previous_input payload),
              isLoading := True, effects := effects s1 @ [WriteAfter 100 (Cmd_prompt [] True)]\<rparr>
         else s1\<lparr>checkpointMode := Error\<rparr>)
      else
        (if cp_exists payload then
           s1\<lparr>checkpointMode := Prompt, previousInput := or_empty (cp_previous_input payload)\<rparr>
         else s1\<lparr>checkpointMode := Normal\<rparr>))"

section \<open>Message handlers (handlers/messageHandlers.ts)\<close>

text \<open>
  An inbound message is its type discriminator and a payload. The twenty discriminators
  the dispatcher knows are one constructor each, with the payload fields the handler
  reads; \<open>M_unknown t\<close> is a message with another discriminator \<open>t\<close>. An optional field is
  \<open>None\<close> when absent. The \<open>event\<close> of an agent event is one of the four the handler
  tests, \<open>update\<close> (named in the status-text rule), or another string.
\<close>

datatype agent_event = Ev_start | Ev_log | Ev_step_complete | Ev_complete | Ev_update | Ev_other

record agent_payload =
  ap_agent :: jstring
  ap_event :: agent_event
  ap_status :: "jstring option"
  ap_output :: "jstring option"
  ap_is_error :: "bool option"

datatype msg =
    M_ready
  | M_init "jstring option"
  | M_status "jstring option" bool
  | M_log jstring
  | M_done
  | M_error jstring "jstring option"
  | M_rag_status RagStatusInfo
  | M_system_ready
  | M_system_status jstring
  | M_agent_event agent_payload
  | M_plan_stream jstring bool "jstring list option"
  | M_task_progress "nat option" "nat option"
  | M_file_content "jstring option" "jstring option"
  | M_checkpoint_info checkpoint_payload
  | M_completed_run_info bool "jstring option" "jstring option"
  | M_archive_complete bool
  | M_fresh_start_complete
  | M_clear_checkpoint_complete
  | M_final_summary "jstring option"
  | M_code_result "jstring option" "bool option" "jstring option"
  | M_unknown jstring

fun msg_type :: "msg \<Rightarrow> jstring" where
  "msg_type M_ready = js ''ready''"
| "msg_type (M_init model) = js ''init''"
| "msg_type (M_status txt loading) = js ''status''"
| "msg_type (M_log txt) = js ''log''"
| "msg_type M_done = js ''done''"
| "msg_type (M_error message traceback) = js ''error''"
| "msg_type (M_rag_status r) = js ''rag_status''"
| "msg_type M_system_ready = js ''system_ready''"
| "msg_type (M_system_status st) = js ''system_status''"
| "msg_type (M_agent_event payload) = js ''agent_event''"
| "msg_type (M_plan_stream c d pp) = js ''plan_stream''"
| "msg_type (M_task_progress c tt) = js ''task_progress''"
| "msg_type (M_file_content n c) = js ''file_content''"
| "msg_type (M_checkpoint_info payload) = js ''checkpoint_info''"
| "msg_type (M_completed_run_info e p sm) = js ''completed_run_info''"
| "msg_type (M_archive_complete ok) = js ''archive_complete''"
| "msg_type M_fresh_start_complete = js ''fresh_start_complete''"
| "msg_type M_clear_checkpoint_complete = js ''clear_checkpoint_complete''"
| "msg_type (M_final_summary c) = js ''final_summary''"
| "msg_type (M_code_result out ok fp) = js ''code_result''"
| "msg_type (M_unknown t) = t"

text \<open>A string is truthy when it is present and not empty.\<close>

definition truthy :: "jstring option \<Rightarrow> bool" where
  "truthy x = (case x of None \<Rightarrow> False | Some v \<Rightarrow> v \<noteq> [])"

text \<open>A write to the subprocess's standard input happens only while the handle is set.\<close>

definition write_cmd :: "command \<Rightarrow> session \<Rightarrow> session" where
  "write_cmd c s = (if bridgeRef s then s\<lparr>effects := effects s @ [Write c]\<rparr> else s)"

definition exitIfDirectArgs :: "config \<Rightarrow> session \<Rightarrow> session" where
  "exitIfDirectArgs cfg s =
     (if directArgsUsed cfg then s\<lparr>effects := effects s @ [ExitAfter 500]\<rparr> else s)"

definition handleReadyMessage :: "session \<Rightarrow> session" where
  "handleReadyMessage s =
     (case ragStatus s of
        None \<Rightarrow> s
      | Some r \<Rightarrow>
          if rag_status r = js ''done''
          then s\<lparr>effects := effects s @ [WriteAfter 500 Cmd_check_checkpoint]\<rparr>
          else s)"

definition handleInitMessage :: "jstring option \<Rightarrow> session \<Rightarrow> session" where
  "handleInitMessage model s = (if truthy model then s\<lparr>modelName := or_empty model\<rparr> else s)"

definition handleStatusMessage :: "jstring option \<Rightarrow> bool \<Rightarrow> session \<Rightarrow> session" where
  "handleStatusMessage txt loading s = s\<lparr>sstatus := txt, isLoading := loading\<rparr>"

definition handleLogMessage :: "jstring \<Rightarrow> session \<Rightarrow> session" where
  "handleLogMessage txt s =
     s\<lparr>messages :=
         (case rev (messages s) of
            [] \<Rightarrow> messages s @ [(js ''assistant'', txt @ [10])]
          | (role, c) # earlier \<Rightarrow>
              if role = js ''assistant''
              then butlast (messages s) @ [(role, c @ txt @ [10])]
              else messages s @ [(js ''assistant'', txt @ [10])])\<rparr>"

definition handleDoneMessage :: "config \<Rightarrow> session \<Rightarrow> session" where
  "handleDoneMessage cfg s =
     exitIfDirectArgs cfg (write_cmd Cmd_check_checkpoint (s\<lparr>isLoading := False, sstatus := None\<rparr>))"

definition handleErrorMessage :: "config \<Rightarrow> jstring \<Rightarrow> jstring option \<Rightarrow> session \<Rightarrow> session" where
  "handleErrorMessage cfg message traceback s =
     (let errorMsg = (if truthy traceback
                      then js ''Error: '' @ message @ [10, 10] @ or_empty traceback
                      else js ''Error: '' @ message);
          s1 = s\<lparr>messages := messages s @ [(js ''system'', errorMsg)]\<rparr>;
          s2 = s1\<lparr>effects := effects s1 @
                  [ConsoleError (if truthy traceback then or_empty traceback else message)]\<rparr>
      in exitIfDirectArgs cfg (s2\<lparr>isLoading := False\<rparr>))"

definition handleRagStatusMessage :: "RagStatusInfo \<Rightarrow> session \<Rightarrow> session" where
  "handleRagStatusMessage payload s = s\<lparr>ragStatus := Some payload\<rparr>"

definition handleSystemReadyMessage :: "session \<Rightarrow> session" where
  "handleSystemReadyMessage s = s\<lparr>isSystemReady := True\<rparr>"

definition handleSystemStatusMessage :: "jstring \<Rightarrow> session \<Rightarrow> session" where
  "handleSystemStatusMessage st s =
     (if st = js ''running'' then
        s\<lparr>systemStatus := Running, agents := [], planContent := [], isPlanComplete := False,
          taskProgress := None\<rparr>
      else if st = js ''completed'' then
        s\<lparr>systemStatus := Completed, agents := map (\<lambda>a. a\<lparr>status := Complete\<rparr>) (agents s)\<rparr>
      else s)"

text \<open>
  \<open>handleAgentEventMessage\<close>. The task number is read from \<open>taskProgressRef\<close>. Every
  updater of the log calls \<open>ensureHeader\<close> first; \<open>genUniqueId\<close> increments the id counter.
  A handler is the state with the fields it sets; what an updater passed to
  \<open>setCommittedItems\<close> returns is a function of its own.
\<close>

definition plan_box_item :: "jstring \<Rightarrow> CommittedItem" where
  "plan_box_item planText =
     \<lparr>item_id = js ''execution-plan-complete'', item_type = T_plan,
      content = C_plan planText True False None,
      agentName = Some (js ''strategist''), isError = None\<rparr>"

definition has_plan_box :: "CommittedItem list \<Rightarrow> bool" where
  "has_plan_box items =
     list_ex (\<lambda>item.
        item_id item = js ''execution-plan-complete'' \<or>
        item_id item = js ''checkpoint-history-plan'' \<or>
        (item_type item = T_plan \<and> agentName item = Some (js ''strategist''))) items"

definition currentTaskNum :: "session \<Rightarrow> nat option" where
  "currentTaskNum s = (case taskProgressRef s of None \<Rightarrow> None | Some tp \<Rightarrow> Some (current tp))"

definition isExecuteCodeTool :: "agent_payload \<Rightarrow> bool" where
  "isExecuteCodeTool payload =
     (case ap_status payload of
        None \<Rightarrow> False
      | Some txt \<Rightarrow> includes_str (toLowerCase txt) (js ''executed''))"

definition toolIsError :: "agent_payload \<Rightarrow> session \<Rightarrow> bool" where
  "toolIsError payload s =
     (if ap_is_error payload = Some True then True
      else if isExecuteCodeTool payload then lastCodeResultIsErrorRef s
      else False)"

text \<open>The updater of the log for \<open>step_complete\<close>: \<open>prev\<close> is \<open>committedItems s\<close>.\<close>

definition step_complete_items :: "agent_payload \<Rightarrow> session \<Rightarrow> CommittedItem list" where
  "step_complete_items payload s =
     (let agent = ap_agent payload;
          agentStatusText = ap_status payload;
          items = ensureHeader (parsedPlan s) (now s) (committedItems s) agent (currentTaskNum s);
          newToolItem =
            \<lparr>item_id = generateUniqueId (agent @ js ''-tool'') (now s) (itemIdCounterRef s),
             item_type = T_tool, content = C_text agentStatusText, agentName = Some agent,
             isError = Some (toolIsError payload s)\<rparr>
      in if agent = js ''strategist'' \<and>
            (agentStatusText = Some (js ''Reviewed Plan'') \<or>
             agentStatusText = Some (js ''Created Replan'')) \<and>
            \<not> has_plan_box items \<and> truthy (ap_output payload)
         then items @ [plan_box_item (or_empty (ap_output payload)), newToolItem]
         else items @ [newToolItem])"

definition agent_step_complete :: "agent_payload \<Rightarrow> session \<Rightarrow> session" where
  "agent_step_complete payload s =
     s\<lparr>activeFileContentRef := None,
       lastCodeResultIsErrorRef :=
         (if isExecuteCodeTool payload then False else lastCodeResultIsErrorRef s),
       itemIdCounterRef := itemIdCounterRef s + 1,
       committedItems := step_complete_items payload s\<rparr>"

definition log_items :: "agent_payload \<Rightarrow> session \<Rightarrow> CommittedItem list" where
  "log_items payload s =
     (let agent = ap_agent payload;
          agentStatusText = ap_status payload;
          items = ensureHeader (parsedPlan s) (now s) (committedItems s) agent (currentTaskNum s);
          isEvaluatorSummary =
            (agent = js ''evaluator'' \<and> truthy agentStatusText \<and>
             \<not> includes_str (or_empty agentStatusText) (js ''Evaluation Passed'') \<and>
             \<not> includes_str (or_empty agentStatusText) (js ''Evaluation Failed'') \<and>
             \<not> startsWith (or_empty agentStatusText) (js ''Evaluating''))
      in items @
           [\<lparr>item_id = generateUniqueId (agent @ js ''-log'') (now s) (itemIdCounterRef s),
             item_type = (if isEvaluatorSummary then T_evaluation_summary else T_log),
             content = C_text agentStatusText, agentName = Some agent, isError = None\<rparr>])"

definition agent_log :: "agent_payload \<Rightarrow> session \<Rightarrow> session" where
  "agent_log payload s =
     s\<lparr>itemIdCounterRef := itemIdCounterRef s + 1, committedItems := log_items payload s\<rparr>"

definition agent_start :: "agent_payload \<Rightarrow> session \<Rightarrow> session" where
  "agent_start payload s =
     s\<lparr>committedItems :=
         ensureHeader (parsedPlan s) (now s) (committedItems s) (ap_agent payload) (currentTaskNum s)\<rparr>"

definition complete_items :: "agent_payload \<Rightarrow> session \<Rightarrow> CommittedItem list" where
  "complete_items payload s =
     (let agent = ap_agent payload;
          items = ensureHeader (parsedPlan s) (now s) (committedItems s) agent (currentTaskNum s)
      in items @
           [\<lparr>item_id = generateUniqueId (agent @ js ''-complete'') (now s) (itemIdCounterRef s),
             item_type = (if agent = js ''evaluator'' then T_evaluator_status else T_agent_status),
             content = C_text (ap_status payload), agentName = Some agent, isError = None\<rparr>])"

definition agent_complete :: "agent_payload \<Rightarrow> session \<Rightarrow> session" where
  "agent_complete payload s =
     (if truthy (ap_status payload) \<and> trim (or_empty (ap_status payload)) \<noteq> [] then
        s\<lparr>itemIdCounterRef := itemIdCounterRef s + 1, committedItems := complete_items payload s\<rparr>
      else s)"

definition update_agents :: "agent_payload \<Rightarrow> AgentInfo list \<Rightarrow> AgentInfo list" where
  "update_agents payload prev =
     (let agent = ap_agent payload;
          event = ap_event payload;
          agentStatusText = ap_status payload;
          update = (\<lambda>a. a\<lparr>status := (if event = Ev_complete then Complete
                                      else if event = Ev_log then status a else Active),
                           statusText := (if event = Ev_update \<or> event = Ev_start \<or> event = Ev_complete
                                          then agentStatusText else statusText a),
                           isStreaming := False\<rparr>)
      in case find (\<lambda>a. name a = agent) prev of
           Some existing \<Rightarrow> map (\<lambda>a. if name a = agent then update a else a) prev
         | None \<Rightarrow>
             prev @ [\<lparr>name = agent,
                      status = (if event = Ev_complete then Complete else Active),
                      statusText = agentStatusText, isStreaming = False\<rparr>])"

definition agent_event_log :: "agent_payload \<Rightarrow> session \<Rightarrow> session" where
  "agent_event_log payload s =
     (case ap_event payload of
        Ev_step_complete \<Rightarrow> agent_step_complete payload s
      | Ev_log \<Rightarrow> agent_log payload s
      | Ev_start \<Rightarrow> agent_start payload s
      | Ev_complete \<Rightarrow> agent_complete payload s
      | Ev_update \<Rightarrow> s
      | Ev_other \<Rightarrow> s)"

definition handleAgentEventMessage :: "agent_payload \<Rightarrow> session \<Rightarrow> session" where
  "handleAgentEventMessage payload s =
     (agent_event_log payload s)\<lparr>agents := update_agents payload (agents s)\<rparr>"

definition handlePlanStreamMessage :: "jstring \<Rightarrow> bool \<Rightarrow> jstring list option \<Rightarrow> session \<Rightarrow> session" where
  "handlePlanStreamMessage newPlanContent isPlanDone parsed s =
     (let s1 = (case parsed of
                  None \<Rightarrow> s
                | Some plan \<Rightarrow> if 0 < length plan then s\<lparr>parsedPlan := plan\<rparr> else s)
      in s1\<lparr>planContent := newPlanContent, isPlanComplete := isPlanDone\<rparr>)"

definition handleTaskProgressMessage :: "nat option \<Rightarrow> nat option \<Rightarrow> session \<Rightarrow> session" where
  "handleTaskProgressMessage c tt s =
     (case c of
        None \<Rightarrow> s
      | Some cur \<Rightarrow>
          (case tt of
             None \<Rightarrow> s
           | Some tot \<Rightarrow>
               s\<lparr>taskProgress := Some \<lparr>current = cur, total = tot\<rparr>,
                 taskProgressRef := Some \<lparr>current = cur, total = tot\<rparr>\<rparr>))"

definition file_content_items :: "FileContent \<Rightarrow> session \<Rightarrow> CommittedItem list" where
  "file_content_items fc s =
     ensureHeader (parsedPlan s) (now s) (committedItems s) (js ''operator'') (currentTaskNum s) @
     [\<lparr>item_id = js ''code-snippet-'' @ show_nat (now s), item_type = T_code_snippet,
       content = C_snippet (fc_name fc) (fc_content fc) True False,
       agentName = Some (js ''operator''), isError = None\<rparr>]"

definition handleFileContentMessage :: "jstring option \<Rightarrow> jstring option \<Rightarrow> session \<Rightarrow> session" where
  "handleFileContentMessage pname pcontent s =
     (if truthy pname \<and> truthy pcontent then
        (if activeFileContentRef s = Some \<lparr>fc_name = or_empty pname, fc_content = or_empty pcontent\<rparr>
         then s
         else s\<lparr>activeFileContentRef := Some \<lparr>fc_name = or_empty pname, fc_content = or_empty pcontent\<rparr>,
                committedItems :=
                  file_content_items \<lparr>fc_name = or_empty pname, fc_content = or_empty pcontent\<rparr> s\<rparr>)
      else s)"

text \<open>
  The test for a final summary already in the log: the same text, or the same first
  hundred characters.
\<close>

definition hasFinalSummary :: "jstring \<Rightarrow> CommittedItem list \<Rightarrow> bool" where
  "hasFinalSummary summaryContent prev =
     list_ex (\<lambda>item.
        (item_id item = js ''final-summary'' \<or> item_id item = js ''completed-run-summary'') \<and>
        item_type item = T_final_summary \<and>
        (case content item of
           C_text (Some c) \<Rightarrow> c = summaryContent \<or> take 100 c = take 100 summaryContent
         | _ \<Rightarrow> False)) prev"

definition add_final_summary :: "jstring \<Rightarrow> jstring \<Rightarrow> session \<Rightarrow> session" where
  "add_final_summary iid summaryContent s =
     (if hasFinalSummary summaryContent (committedItems s) then s
      else s\<lparr>committedItems := committedItems s @
                [text_item iid T_final_summary summaryContent (js ''system'')]\<rparr>)"

definition handleCompletedRunInfoMessage ::
  "bool \<Rightarrow> jstring option \<Rightarrow> jstring option \<Rightarrow> session \<Rightarrow> session" where
  "handleCompletedRunInfoMessage ex prev_input summary s =
     (let s1 = s\<lparr>showMainUI := True\<rparr> in
      if ex then
        (let s2 = s1\<lparr>checkpointMode := CompletedRunPrompt, previousInput := or_empty prev_input\<rparr>
         in if truthy summary then add_final_summary (js ''completed-run-summary'') (or_empty summary) s2
            else s2)
      else s1)"

definition handleArchiveCompleteMessage :: "bool \<Rightarrow> session \<Rightarrow> session" where
  "handleArchiveCompleteMessage success s = (if success then s\<lparr>checkpointMode := Normal\<rparr> else s)"

definition handleFreshStartCompleteMessage :: "session \<Rightarrow> session" where
  "handleFreshStartCompleteMessage s = s"

definition handleClearCheckpointCompleteMessage :: "session \<Rightarrow> session" where
  "handleClearCheckpointCompleteMessage s = s\<lparr>checkpointMode := Normal\<rparr>"

definition handleFinalSummaryMessage :: "jstring option \<Rightarrow> session \<Rightarrow> session" where
  "handleFinalSummaryMessage c s =
     (if truthy c then add_final_summary (js ''final-summary'') (or_empty c) s else s)"

definition code_result_items ::
  "jstring option \<Rightarrow> bool option \<Rightarrow> jstring option \<Rightarrow> session \<Rightarrow> CommittedItem list" where
  "code_result_items out success file_path s =
     ensureHeader (parsedPlan s) (now s) (committedItems s) (js ''operator'') (currentTaskNum s) @
     [\<lparr>item_id = generateUniqueId (js ''code-result'') (now s) (itemIdCounterRef s),
       item_type = T_code_result,
       content = C_result (or_empty out) (or_empty file_path),
       agentName = Some (js ''operator''), isError = Some (success = Some False)\<rparr>]"

definition handleCodeResultMessage ::
  "jstring option \<Rightarrow> bool option \<Rightarrow> jstring option \<Rightarrow> session \<Rightarrow> session" where
  "handleCodeResultMessage out success file_path s =
     (if truthy out then
        s\<lparr>lastCodeResultIsErrorRef := (success = Some False),
          itemIdCounterRef := itemIdCounterRef s + 1,
          committedItems := code_result_items out success file_path s\<rparr>
      else s)"

text \<open>
  The dispatcher: a message is dropped while the interrupted flag is set, unless its
  discriminator is \<open>checkpoint_info\<close> or \<open>system_ready\<close>; otherwise the switch runs the
  handler of the discriminator, and an unknown discriminator does nothing.
\<close>

fun dispatch :: "config \<Rightarrow> msg \<Rightarrow> session \<Rightarrow> session" where
  "dispatch cfg M_ready s = handleReadyMessage s"
| "dispatch cfg (M_init model) s = handleInitMessage model s"
| "dispatch cfg (M_status txt loading) s = handleStatusMessage txt loading s"
| "dispatch cfg (M_log txt) s = handleLogMessage txt s"
| "dispatch cfg M_done s = handleDoneMessage cfg s"
| "dispatch cfg (M_error message traceback) s = handleErrorMessage cfg message traceback s"
| "dispatch cfg (M_rag_status r) s = handleRagStatusMessage r s"
| "dispatch cfg M_system_ready s = handleSystemReadyMessage s"
| "dispatch cfg (M_system_status st) s = handleSystemStatusMessage st s"
| "dispatch cfg (M_agent_event payload) s = handleAgentEventMessage payload s"
| "dispatch cfg (M_plan_stream c d pp) s = handlePlanStreamMessage c d pp s"
| "dispatch cfg (M_task_progress c tt) s = handleTaskProgressMessage c tt s"
| "dispatch cfg (M_file_content n c) s = handleFileContentMessage n c s"
| "dispatch cfg (M_checkpoint_info payload) s =
     handleCheckpointInfo cfg payload (s\<lparr>showMainUI := True, isSystemReady := True\<rparr>)"
| "dispatch cfg (M_completed_run_info e p sm) s = handleCompletedRunInfoMessage e p sm s"
| "dispatch cfg (M_archive_complete ok) s = handleArchiveCompleteMessage ok s"
| "dispatch cfg M_fresh_start_complete s = handleFreshStartCompleteMessage s"
| "dispatch cfg M_clear_checkpoint_complete s = handleClearCheckpointCompleteMessage s"
| "dispatch cfg (M_final_summary c) s = handleFinalSummaryMessage c s"
| "dispatch cfg (M_code_result out ok fp) s = handleCodeResultMessage out ok fp s"
| "dispatch cfg (M_unknown t) s = s"

definition handleBridgeMessage :: "config \<Rightarrow> msg \<Rightarrow> session \<Rightarrow> session" where
  "handleBridgeMessage cfg m s =
     (if isInterruptedRef s \<and> msg_type m \<noteq> js ''checkpoint_info'' \<and> msg_type m \<noteq> js ''system_ready''
      then s
      else dispatch cfg m s)"

section \<open>Prompt submission (handleSubmit, commands/Run.tsx)\<close>

definition fresh_start :: "session \<Rightarrow> session" where
  "fresh_start s =
     (let s1 = s\<lparr>effects := effects s @ [ClearScreen]\<rparr>;
          s2 = applyFreshStartState s1;
          s3 = s2\<lparr>staticKey := staticKey s2 + 1\<rparr>
      in write_cmd Cmd_fresh_start s3)"

definition handleSubmit :: "config \<Rightarrow> jstring \<Rightarrow> session \<Rightarrow> session" where
  "handleSubmit cfg input s =
     (if toLowerCase (trim input) = js ''exit'' then s\<lparr>effects := effects s @ [Exit]\<rparr>
      else if checkpointMode s = Prompt then
        (if toLowerCase (trim input) = js ''yes'' then
           write_cmd (Cmd_prompt [] True) (s\<lparr>checkpointMode := AutoResume, isLoading := True\<rparr>)
         else if toLowerCase (trim input) = js ''no'' then fresh_start s
         else s)
      else if checkpointMode s = CompletedRunPrompt then
        (if toLowerCase (trim input) = js ''yes'' then write_cmd Cmd_archive_and_continue s
         else if toLowerCase (trim input) = js ''no'' then fresh_start s
         else s)
      else
        write_cmd (Cmd_prompt input (flagsRestart cfg \<or> restartFromEnv cfg))
          (s\<lparr>isInterruptedRef := False, isLoading := True,
             sstatus := Some (js ''Sending to backend...'')\<rparr>))"

section \<open>Registration of the key handler (useInput, commands/Run.tsx)\<close>

text \<open>
  The key handler is registered with \<open>isActive: isInteractive\<close>, where \<open>isInteractive\<close> is
  \<open>args.length === 0\<close>: when a prompt was given on the command line (\<open>directArgsUsed\<close>,
  \<open>args.length > 0\<close>), a key press reaches no handler and the session stays as it is.
\<close>

definition key_press :: "config \<Rightarrow> jstring \<Rightarrow> key \<Rightarrow> session \<Rightarrow> session" where
  "key_press cfg input k s = (if directArgsUsed cfg then s else useInput_handler input k s)"

section \<open>Text segmentation and markup (utils/formatting.ts)\<close>

datatype seg_style = Normal_style | Code_style | Bold_style | Italic_style | Task_style

record TextSegment =
  seg_text :: jstring
  seg_style :: seg_style

record marker =
  m_start :: nat
  m_end :: nat
  m_style :: seg_style

text \<open>
  The loop \<open>while ((match = regex.exec(line)) !== null)\<close> for an expression with the flag
  \<open>g\<close>: the matches from left to right as (index, index + length), each search resuming
  where the last match ended. The two expressions it runs on consume at least two
  characters per match; on an empty match, where the source loop would not advance, the
  model stops.
\<close>

fun exec_all_from :: "re \<Rightarrow> jstring \<Rightarrow> nat \<Rightarrow> jstring \<Rightarrow> (nat \<times> nat) list" where
  "exec_all_from r pre skip [] = []"
| "exec_all_from r pre skip (c # cs) =
     (if 0 < skip then exec_all_from r (c # pre) (skip - 1) cs
      else (case rmatch r (pre, c # cs, []) of
              [] \<Rightarrow> exec_all_from r (c # pre) 0 cs
            | (pre', suf', gs) # _ \<Rightarrow>
                (if length pre' \<le> length pre then []
                 else (length pre, length pre')
                      # exec_all_from r (c # pre) (length pre' - length pre - 1) cs)))"

definition exec_all :: "re \<Rightarrow> jstring \<Rightarrow> (nat \<times> nat) list" where
  "exec_all r s = exec_all_from r [] 0 s"

text \<open>The replacement \<open>$1\<close>: the first group, or nothing when there is none.\<close>

definition group1 :: "jstring \<Rightarrow> jstring list \<Rightarrow> nat \<Rightarrow> jstring" where
  "group1 m gs off = (case gs of [] \<Rightarrow> [] | g # _ \<Rightarrow> g)"

definition code_re :: re where
  "code_re = Seq [Lit 96, Grp (Plus (NotLit 96)), Lit 96]"

definition bold_re :: re where
  "bold_re = Seq [Lit 42, Lit 42, Grp (Plus (NotLit 42)), Lit 42, Lit 42]"

definition unclosed_bold_re :: re where
  "unclosed_bold_re = Seq [Bol, Lit 42, Lit 42, Grp (Star (NotLit 42)), Eol]"

definition overlaps :: "marker \<Rightarrow> nat \<Rightarrow> nat \<Rightarrow> bool" where
  "overlaps m s e = ((m_start m \<le> s \<and> s < m_end m) \<or> (m_start m < e \<and> e \<le> m_end m))"

text \<open>The loop over the bold matches: a match is pushed unless it overlaps a marker pushed before.\<close>

fun add_bold_markers :: "marker list \<Rightarrow> (nat \<times> nat) list \<Rightarrow> marker list" where
  "add_bold_markers markers [] = markers"
| "add_bold_markers markers ((s, e) # rest) =
     add_bold_markers
       (if list_ex (\<lambda>m. overlaps m s e) markers then markers
        else markers @ [\<lparr>m_start = s, m_end = e, m_style = Bold_style\<rparr>])
       rest"

definition find_markers :: "jstring \<Rightarrow> marker list" where
  "find_markers line =
     (let markers = map (\<lambda>(s, e). \<lparr>m_start = s, m_end = e, m_style = Code_style\<rparr>)
                        (exec_all code_re line);
          markers = add_bold_markers markers (exec_all bold_re line);
          markers = (if re_test unclosed_bold_re line \<and> \<not> list_ex (\<lambda>m. m_start m = 0) markers
                     then markers @ [\<lparr>m_start = 0, m_end = length line, m_style = Bold_style\<rparr>]
                     else markers)
      in sort_key m_start markers)"

definition marker_content :: "seg_style \<Rightarrow> jstring \<Rightarrow> jstring" where
  "marker_content st fullMatch =
     (case st of
        Code_style \<Rightarrow> replace_first code_re group1 fullMatch
      | Bold_style \<Rightarrow>
          if endsWith fullMatch (js ''**'') then replace_first bold_re group1 fullMatch
          else replace_first (Seq [Bol, Lit 42, Lit 42]) (const_repl []) fullMatch
      | _ \<Rightarrow> fullMatch)"

text \<open>The loop that builds the segments: the segments so far and \<open>lastIndex\<close>.\<close>

fun build_segments ::
  "jstring \<Rightarrow> marker list \<Rightarrow> nat \<Rightarrow> TextSegment list \<Rightarrow> TextSegment list \<times> nat" where
  "build_segments line [] lastIndex segments = (segments, lastIndex)"
| "build_segments line (m # ms) lastIndex segments =
     (let segments =
            (if lastIndex < m_start m \<and> slice lastIndex (m_start m) line \<noteq> []
             then segments @ [\<lparr>seg_text = slice lastIndex (m_start m) line, seg_style = Normal_style\<rparr>]
             else segments);
          fullMatch = slice (m_start m) (m_end m) line
      in build_segments line ms (m_end m)
           (segments @ [\<lparr>seg_text = marker_content (m_style m) fullMatch, seg_style = m_style m\<rparr>]))"

definition parseStyledSegments :: "jstring \<Rightarrow> TextSegment list" where
  "parseStyledSegments line =
     (case build_segments line (find_markers line) 0 [] of
        (segments, lastIndex) \<Rightarrow>
          (let segments =
                 (if lastIndex < length line
                  then segments @ [\<lparr>seg_text = drop lastIndex line, seg_style = Normal_style\<rparr>]
                  else segments)
           in if 0 < length segments then segments
              else [\<lparr>seg_text = line, seg_style = Normal_style\<rparr>]))"

text \<open>
  \<open>applyLatexTransformations\<close>. The digit maps send a character without an entry to itself.
  The symbol table is applied entry by entry, in the order of the source.
\<close>

definition superscript_char :: "jchar \<Rightarrow> jchar" where
  "superscript_char d =
     (if d = 48 then 8304 else if d = 49 then 185 else if d = 50 then 178 else if d = 51 then 179
      else if d = 52 then 8308 else if d = 53 then 8309 else if d = 54 then 8310
      else if d = 55 then 8311 else if d = 56 then 8312 else if d = 57 then 8313
      else if d = 45 then 8315 else d)"

definition subscript_char :: "jchar \<Rightarrow> jchar" where
  "subscript_char d =
     (if d = 48 then 8320 else if d = 49 then 8321 else if d = 50 then 8322 else if d = 51 then 8323
      else if d = 52 then 8324 else if d = 53 then 8325 else if d = 54 then 8326
      else if d = 55 then 8327 else if d = 56 then 8328 else if d = 57 then 8329
      else if d = 45 then 8331 else d)"

definition SYMBOL_MAP :: "(jstring \<times> jchar) list" where
  "SYMBOL_MAP =
     [(js ''times'', 215),
      (js ''approx'', 8776),
      (js ''le'', 8804),
      (js ''ge'', 8805),
      (js ''pm'', 177),
      (js ''rightarrow'', 8594),
      (js ''leftarrow'', 8592),
      (js ''to'', 8594),
      (js ''sim'', 8764),
      (js ''AA'', 197),
      (js ''alpha'', 945),
      (js ''beta'', 946),
      (js ''gamma'', 947),
      (js ''delta'', 948),
      (js ''theta'', 952),
      (js ''mu'', 956),
      (js ''pi'', 960),
      (js ''rho'', 961),
      (js ''sigma'', 963),
      (js ''omega'', 969),
      (js ''Gamma'', 915),
      (js ''Delta'', 916),
      (js ''Theta'', 920),
      (js ''Lambda'', 923),
      (js ''Sigma'', 931),
      (js ''Phi'', 934),
      (js ''Psi'', 936),
      (js ''Omega'', 937),
      (js ''epsilon'', 949),
      (js ''varepsilon'', 949),
      (js ''lambda'', 955),
      (js ''nu'', 957),
      (js ''eta'', 951),
      (js ''tau'', 964),
      (js ''phi'', 981),
      (js ''psi'', 968),
      (js ''nabla'', 8711),
      (js ''partial'', 8706),
      (js ''cdot'', 183),
      (js ''hbar'', 295),
      (js ''infty'', 8734),
      (js ''Ohm'', 937)]"

fun apply_symbols :: "(jstring \<times> jchar) list \<Rightarrow> jstring \<Rightarrow> jstring" where
  "apply_symbols [] result = result"
| "apply_symbols ((latex, unicode) # rest) result =
     apply_symbols rest (replace_all (Cat (Lit 92) (Lits latex)) (const_repl [unicode]) result)"

text \<open>A signed number \<open>-?\d+\<close>, and the second group of a match.\<close>

definition signed_digits :: re where
  "signed_digits = Seq [Opt (Lit 45), Plus (Chr is_digit)]"

definition group2 :: "jstring list \<Rightarrow> jstring" where
  "group2 gs = (case gs of g1 # g2 # _ \<Rightarrow> g2 | _ \<Rightarrow> [])"

definition applyLatexTransformations :: "jstring \<Rightarrow> jstring" where
  "applyLatexTransformations txt =
     (let result = replace_all (Lit 36) (const_repl []) txt;
          textBeforeUnwrap = result;
          result = replace_all (Seq [Lit 92, Lits (js ''text''), Lit 123, Grp (Star (NotLit 125)), Lit 125])
                     (\<lambda>m gs offset.
                        if 0 < offset \<and> \<not> is_space (textBeforeUnwrap ! (offset - 1))
                        then 32 # group1 m gs offset else group1 m gs offset) result;
          result = replace_all (Seq [Lit 92, Lits (js ''bar''), Lit 123, Grp (Star (NotLit 125)), Lit 125])
                     (\<lambda>m gs offset. concat (map (\<lambda>ch. [ch, 772]) (group1 m gs offset))) result;
          result = replace_all (Seq [Lit 94, Lit 123, Grp signed_digits, Lit 125])
                     (\<lambda>m gs offset. map superscript_char (group1 m gs offset)) result;
          result = replace_all (Seq [Lit 94, Grp signed_digits])
                     (\<lambda>m gs offset. map superscript_char (group1 m gs offset)) result;
          result = replace_all (Seq [Lit 95, Lit 123, Grp signed_digits, Lit 125])
                     (\<lambda>m gs offset. map subscript_char (group1 m gs offset)) result;
          result = replace_all (Seq [Lit 95, Grp signed_digits])
                     (\<lambda>m gs offset. map subscript_char (group1 m gs offset)) result;
          result = apply_symbols SYMBOL_MAP result;
          result = replace_all (Seq [Lits (js ''E_''), Lit 123, Opt (Lit 92), Lits (js ''text''), Lit 123,
                                     Lits (js ''cut''), Lit 125, Lit 125])
                     (const_repl (js ''Ecut'')) result;
          result = replace_all (Seq [Lits (js ''E_''), Lit 123, Lits (js ''cut''), Lit 125])
                     (const_repl (js ''Ecut'')) result;
          result = replace_all (Seq [Lits (js ''E_''), Lit 123, Grp (Plus (NotLit 125)), Lit 125])
                     (\<lambda>m gs offset. 69 # group1 m gs offset) result;
          result = replace_all (Seq [Grp (Chr is_word), Lit 95, Lit 123, Grp (Plus (NotLit 125)), Lit 125])
                     (\<lambda>m gs offset. group1 m gs offset @ group2 gs) result;
          result = replace_all (Seq [Lits (js ''10''), Opt (Lit 94), Opt (Lit 123), Lits (js ''-4''), Opt (Lit 125)])
                     (const_repl [49, 48, 8315, 8308]) result;
          result = replace_all (Seq [Lits (js ''10''), Opt (Lit 94), Opt (Lit 123), Lits (js ''-5''), Opt (Lit 125)])
                     (const_repl [49, 48, 8315, 8309]) result;
          result = replace_all (Seq [Lits (js ''10''), Opt (Lit 94), Opt (Lit 123), Lits (js ''-8''), Opt (Lit 125)])
                     (const_repl [49, 48, 8315, 8312]) result;
          result = replace_all (Lits (js ''MoS2'')) (const_repl [77, 111, 83, 8322]) result;
          result = replace_all (Lits (js ''CO2'')) (const_repl [67, 79, 8322]) result;
          result = replace_all (Lits (js ''H2O'')) (const_repl [72, 8322, 79]) result;
          result = replace_all (Seq [Grp (Chr is_digit), Lit 197])
                     (\<lambda>m gs offset. group1 m gs offset @ [32, 197]) result;
          result = replace_all (Seq [Grp (Chr is_digit), Lits (js ''Ry'')])
                     (\<lambda>m gs offset. group1 m gs offset @ js '' Ry'') result;
          result = replace_all (Seq [Grp (Chr is_digit), Lits (js ''eV'')])
                     (\<lambda>m gs offset. group1 m gs offset @ js '' eV'') result;
          result = replace_all (Seq [Grp (Chr is_digit), Lits (js ''meV'')])
                     (\<lambda>m gs offset. group1 m gs offset @ js '' meV'') result
      in result)"

text \<open>
  The space rule between segments: a segment that is not the first and not of normal
  style is preceded by one space, unless the segment before it is empty, ends in
  whitespace, or ends in an opening bracket or quote.
\<close>

definition opens_bracket :: "jchar \<Rightarrow> bool" where
  "opens_bracket c = (c = 40 \<or> c = 91 \<or> c = 123 \<or> c = 34 \<or> c = 39 \<or> c = 96)"

definition needs_space :: "TextSegment \<Rightarrow> TextSegment \<Rightarrow> bool" where
  "needs_space prevSeg seg =
     (seg_style seg \<noteq> Normal_style \<and> seg_text prevSeg \<noteq> [] \<and>
      \<not> is_space (last (seg_text prevSeg)) \<and> \<not> opens_bracket (last (seg_text prevSeg)))"

fun plain_from :: "TextSegment \<Rightarrow> TextSegment list \<Rightarrow> jstring" where
  "plain_from prevSeg [] = []"
| "plain_from prevSeg (seg # rest) =
     (if needs_space prevSeg seg then 32 # seg_text seg else seg_text seg) @ plain_from seg rest"

definition plain_text_of :: "TextSegment list \<Rightarrow> jstring" where
  "plain_text_of segs = (case segs of [] \<Rightarrow> [] | seg # rest \<Rightarrow> seg_text seg @ plain_from seg rest)"

text \<open>\<open>s.replace(p, '')\<close> for a string \<open>p\<close>: the first occurrence of \<open>p\<close> is removed.\<close>

fun remove_first_str :: "jstring \<Rightarrow> jstring \<Rightarrow> jstring" where
  "remove_first_str p [] = []"
| "remove_first_str p (c # cs) =
     (if startsWith (c # cs) p then drop (length p) (c # cs) else c # remove_first_str p cs)"

text \<open>
  The expressions of \<open>formatLine\<close>. The optional groups \<open>(\*\*)?\<close> of the task expression
  are never read, so they are written without a group. The class after the digits holds
  the colon and the fullwidth colon U+FF1A.
\<close>

definition braille_or_space :: re where
  "braille_or_space = Chr (\<lambda>c. c = 10240 \<or> is_space c)"

definition colon_class :: re where
  "colon_class = Chr (\<lambda>c. c = 58 \<or> c = 65306)"

definition taskRegex :: re where
  "taskRegex =
     Seq [Bol, Star braille_or_space, Plus (Lit 35), Star (Chr is_space), Opt (Lits (js ''**'')),
          task_word, Plus (Chr is_space), Plus (Chr is_digit), colon_class, Star (Chr is_space),
          Opt (Lits (js ''**'')), Star (Chr is_space)]"

definition bareTaskRegex :: re where
  "bareTaskRegex =
     Seq [Bol, task_word, Plus (Chr is_space), Plus (Chr is_digit), colon_class, Star (Chr is_space)]"

definition headerRegex :: re where
  "headerRegex = Seq [Bol, Star braille_or_space, Rep13 (Lit 35), Star braille_or_space]"

definition bulletRegex :: re where
  "bulletRegex =
     Seq [Bol, Star (Chr is_space), Chr (\<lambda>c. c = 45 \<or> c = 42), Plus (Chr is_space)]"

definition boldStartRegex :: re where
  "boldStartRegex = Seq [Bol, Star (Chr is_space), Lit 42, Lit 42]"

definition numberedRegex :: re where
  "numberedRegex = Seq [Bol, Grp (Plus (Chr is_digit)), Lit 46, Plus (Chr is_space)]"

definition dotBulletRegex :: re where
  "dotBulletRegex = Seq [BolM, Star (Chr is_space), Lit 8226, Plus (Chr is_space)]"

record formatted =
  plainText :: jstring
  isHeader :: bool
  isTask :: bool
  addEmptyBefore :: bool
  segments :: "TextSegment list"

definition strip_blockquote :: "jstring \<Rightarrow> jstring" where
  "strip_blockquote txt =
     (if startsWith (trim txt) (js ''>'') then
        (if startsWith txt (js ''> '') then drop 2 txt
         else if startsWith txt (js ''>'') then drop 1 txt
         else txt)
      else txt)"

definition match_task :: "jstring \<Rightarrow> jstring option" where
  "match_task txt =
     (case re_search taskRegex [] txt of
        Some (pre, m, gs, rest) \<Rightarrow> Some m
      | None \<Rightarrow>
          (case re_search bareTaskRegex [] txt of
             Some (pre, m, gs, rest) \<Rightarrow> Some m
           | None \<Rightarrow> None))"

definition strip_task_prefix :: "jstring \<Rightarrow> jstring \<Rightarrow> jstring" where
  "strip_task_prefix m txt =
     (let txt = trim (remove_first_str m txt);
          txt = (if endsWith txt (js ''**'') \<and> \<not> startsWith txt (js ''**'')
                 then trim (take (length txt - 2) txt) else txt)
      in if \<not> startsWith txt (js ''**'') \<and> 0 < length txt
         then js ''**'' @ txt @ js ''**'' else txt)"

definition normalize_bullets :: "jstring \<Rightarrow> jstring" where
  "normalize_bullets txt =
     (let txt = (if re_test bulletRegex txt \<and> \<not> re_test boldStartRegex txt
                 then replace_first bulletRegex (const_repl [8226, 32]) txt else txt);
          txt = replace_first numberedRegex (\<lambda>m gs offset. group1 m gs offset @ js ''. '') txt
      in replace_all dotBulletRegex (const_repl (js ''- '')) txt)"

definition formatLine :: "jstring \<Rightarrow> bool \<Rightarrow> bool \<Rightarrow> formatted" where
  "formatLine line stripTaskPrefix inCodeBlock =
     (if inCodeBlock then
        \<lparr>plainText = line, isHeader = False, isTask = False, addEmptyBefore = False,
         segments = [\<lparr>seg_text = line, seg_style = Code_style\<rparr>]\<rparr>
      else
        (let txt = replace_all (Lit 10240) (const_repl [32]) line;
             txt = strip_blockquote txt;
             taskMatch = match_task txt;
             task = (case taskMatch of None \<Rightarrow> False | Some m \<Rightarrow> True);
             txt = (case taskMatch of
                      None \<Rightarrow> txt
                    | Some m \<Rightarrow> if stripTaskPrefix then strip_task_prefix m txt else txt);
             header = re_test headerRegex txt;
             txt = (if header then replace_first headerRegex (const_repl []) txt else txt);
             txt = normalize_bullets txt;
             segs = parseStyledSegments txt;
             transformedSegments =
               map (\<lambda>seg. if seg_style seg = Code_style then seg
                          else seg\<lparr>seg_text := applyLatexTransformations (seg_text seg)\<rparr>) segs
         in \<lparr>plainText = plain_text_of transformedSegments, isHeader = header, isTask = task,
             addEmptyBefore = (task \<or> header), segments = transformedSegments\<rparr>))"

section \<open>Line wrapping (processSummaryLine, utils/textProcessing.ts)\<close>

record ProcessedLine =
  pl_plainText :: jstring
  pl_segments :: "TextSegment list"
  pl_isHeader :: bool
  pl_isTask :: bool

text \<open>
  The state of the wrapping loops: the lines pushed, the segments and length of the
  current line, and the flag for the first line. \<open>breaks\<close> records each split the loop
  performs, as the style of the segment, the text being split and the break point; it is
  written and never read.
\<close>

record wrap_state =
  results :: "ProcessedLine list"
  currentSegments :: "TextSegment list"
  currentLength :: nat
  isFirst :: bool
  breaks :: "(seg_style \<times> jstring \<times> nat) list"

definition pushLine :: "formatted \<Rightarrow> wrap_state \<Rightarrow> wrap_state" where
  "pushLine fmt w =
     w\<lparr>results := results w @
          [\<lparr>pl_plainText = plain_text_of (currentSegments w),
            pl_segments = currentSegments w,
            pl_isHeader = (if isFirst w then isHeader fmt else False),
            pl_isTask = isTask fmt\<rparr>],
       currentSegments := [], currentLength := 0, isFirst := False\<rparr>"

text \<open>
  \<open>s.lastIndexOf(' ', from)\<close>: the greatest index at most \<open>from\<close> that holds a space, if
  there is one.
\<close>

definition lastIndexOf_space :: "jstring \<Rightarrow> nat \<Rightarrow> nat option" where
  "lastIndexOf_space s from =
     (case filter (\<lambda>i. s ! i = 32) (rev [0..<min (from + 1) (length s)]) of
        [] \<Rightarrow> None
      | i # _ \<Rightarrow> Some i)"

text \<open>
  The \<open>while\<close> loop for one segment. The content width is a non-negative integer. With
  no space at an index above \<open>0\<close> within the budget, an empty current line is broken at
  the width, and a line that holds text is pushed and the segment tried again.
\<close>

lemma pred_less_iff: "(n - Suc 0 < n) = (0 < (n::nat))"
  by arith

function wrap_loop ::
  "formatted \<Rightarrow> nat \<Rightarrow> seg_style \<Rightarrow> jstring \<Rightarrow> nat \<Rightarrow> wrap_state \<Rightarrow> jstring \<times> nat \<times> wrap_state" where
  "wrap_loop fmt contentWidth st segText prefixLen w =
     (if contentWidth < currentLength w + prefixLen + length segText then
        (let available = contentWidth - currentLength w - prefixLen;
             lastSpace = lastIndexOf_space segText available;
             spaceFound = (case lastSpace of None \<Rightarrow> False | Some i \<Rightarrow> 0 < i)
         in if \<not> spaceFound \<and> currentLength w \<noteq> 0 then
              wrap_loop fmt contentWidth st segText 0 (pushLine fmt w)
            else
              (let breakPoint = (case lastSpace of
                                   None \<Rightarrow> contentWidth
                                 | Some i \<Rightarrow> if 0 < i then i else contentWidth);
                   firstPart = take breakPoint segText;
                   restPart = drop (breakPoint + 1) segText;
                   w1 = (if firstPart \<noteq> []
                         then w\<lparr>currentSegments := currentSegments w @
                                   [\<lparr>seg_text = firstPart, seg_style = st\<rparr>],
                                 currentLength := currentLength w + prefixLen + length firstPart\<rparr>
                         else w);
                   w2 = pushLine fmt (w1\<lparr>breaks := breaks w1 @ [(st, segText, breakPoint)]\<rparr>)
               in wrap_loop fmt contentWidth st restPart 0 w2))
      else (segText, prefixLen, w))"
  by pat_completeness auto
termination
  by (relation "measures [\<lambda>(fmt, cw, st, segText, prefixLen, w). length segText,
                          \<lambda>(fmt, cw, st, segText, prefixLen, w).
                             prefixLen + (if 0 < currentLength w then 1 else 0)]")
     (auto simp add: pushLine_def Let_def pred_less_iff split: option.splits if_splits)

declare wrap_loop.simps [simp del]

fun wrap_segments :: "formatted \<Rightarrow> nat \<Rightarrow> TextSegment list \<Rightarrow> wrap_state \<Rightarrow> wrap_state" where
  "wrap_segments fmt contentWidth [] w = w"
| "wrap_segments fmt contentWidth (segment # rest) w =
     (let prefixLen = (case currentSegments w of
                         [] \<Rightarrow> 0
                       | _ # _ \<Rightarrow> if needs_space (last (currentSegments w)) segment then 1 else 0)
      in case wrap_loop fmt contentWidth (seg_style segment) (seg_text segment) prefixLen w of
           (segText, prefixLen, w1) \<Rightarrow>
             wrap_segments fmt contentWidth rest
               (if segText \<noteq> []
                then w1\<lparr>currentSegments := currentSegments w1 @
                            [\<lparr>seg_text = segText, seg_style = seg_style segment\<rparr>],
                        currentLength := currentLength w1 + prefixLen + length segText\<rparr>
                else w1))"

definition wrap_formatted :: "formatted \<Rightarrow> nat \<Rightarrow> wrap_state" where
  "wrap_formatted fmt contentWidth =
     (let w = wrap_segments fmt contentWidth (segments fmt)
                \<lparr>results = [], currentSegments = [], currentLength = 0, isFirst = True, breaks = []\<rparr>
      in if 0 < length (currentSegments w) then pushLine fmt w else w)"

definition processSummaryLine :: "jstring \<Rightarrow> nat \<Rightarrow> bool \<Rightarrow> bool \<Rightarrow> ProcessedLine list" where
  "processSummaryLine line contentWidth stripTaskPrefix inCodeBlock =
     (let fmt = formatLine line stripTaskPrefix inCodeBlock in
      if length (plainText fmt) \<le> contentWidth then
        [\<lparr>pl_plainText = plainText fmt, pl_segments = segments fmt, pl_isHeader = isHeader fmt,
          pl_isTask = isTask fmt\<rparr>]
      else results (wrap_formatted fmt contentWidth))"

text \<open>
  A key press counts as ESC when \<open>key.escape\<close> is set and it is not the exit
  combination (Ctrl+C or Ctrl+D), which the handler tests first.
\<close>

definition is_esc_press :: "jstring \<Rightarrow> key \<Rightarrow> bool" where
  "is_esc_press input k = (escape k \<and> \<not> ((ctrl k \<and> input = js ''c'') \<or> input = [4]))"

definition esc_key :: key where
  "esc_key = \<lparr>ctrl = False, escape = True\<rparr>"

definition operator_active :: AgentInfo where
  "operator_active =
     \<lparr>name = js ''operator'', status = Active, statusText = None, isStreaming = False\<rparr>"

text \<open>
  Two settings: an interactive session (no prompt on the command line), and a session
  started with a prompt on the command line.
\<close>

definition cfg0 :: config where
  "cfg0 = \<lparr>restartFromEnv = False, flagsRestart = False, directArgsUsed = False\<rparr>"


text \<open>
  A busy session: the worker has been spawned, a prompt is being processed, and the
  primary worker is the active agent; the clock reads 5000.
\<close>

definition busy_with_operator :: session where
  "busy_with_operator =
     initial_session\<lparr>isLoading := True, bridgeRef := True, agents := [operator_active],
                     now := 5000\<rparr>"

text \<open>The session once the bridge effect has spawned the worker.\<close>

definition spawned_session :: session where
  "spawned_session = initial_session\<lparr>bridgeRef := True\<rparr>"

section \<open>The interrupt gesture\<close>











text \<open>
  Claim C10. When the second ESC arrives while no agent has status active, the log is
  unchanged, the subprocess the handle refers to is still sent the kill signal and the
  handle dropped, the partial reset is still applied, and the restart counter is still
  incremented.
\<close>

theorem esc_gesture_without_active_agent:
  assumes "isLoading s" and "escPressedOnce s" and "is_esc_press input k"
    and "find (\<lambda>a. status a = Active) (agents s) = None"
  shows "committedItems (useInput_handler input k s) = committedItems s
       \<and> effects (useInput_handler input k s) = effects s @ (if bridgeRef s then [Kill] else [])
       \<and> bridgeRef (useInput_handler input k s) = False
       \<and> bridgeRestartCounter (useInput_handler input k s) = bridgeRestartCounter s + 1
       \<and> isLoading (useInput_handler input k s) = False
       \<and> sstatus (useInput_handler input k s) = None
       \<and> showMainUI (useInput_handler input k s) = False
       \<and> isSystemReady (useInput_handler input k s) = False
       \<and> checkpointMode (useInput_handler input k s) = Checking
       \<and> systemStatus (useInput_handler input k s) = Idle
       \<and> agents (useInput_handler input k s) = []
       \<and> planContent (useInput_handler input k s) = []
       \<and> isPlanComplete (useInput_handler input k s) = False
       \<and> taskProgress (useInput_handler input k s) = None
       \<and> isInterruptedRef (useInput_handler input k s) = False"
  using assms
  by (auto simp add: useInput_handler_def is_esc_press_def interrupt_def Let_def kill_bridge_def
                applyInterruptResetState_def)

definition busy_without_agents :: session where
  "busy_without_agents =
     initial_session\<lparr>isLoading := True, escPressedOnce := True, showInterruptWarning := True,
                     escTimeoutRef := Some 3000, bridgeRef := True,
                     committedItems := [header_item (js ''strategist-header'') T_agent_header (js ''strategist'')]\<rparr>"

theorem esc_gesture_without_active_agent_witness:
  "isLoading busy_without_agents \<and> escPressedOnce busy_without_agents
   \<and> is_esc_press [] esc_key
   \<and> find (\<lambda>a. status a = Active) (agents busy_without_agents) = None
   \<and> committedItems (useInput_handler [] esc_key busy_without_agents)
       = [header_item (js ''strategist-header'') T_agent_header (js ''strategist'')]
   \<and> effects (useInput_handler [] esc_key busy_without_agents) = [Kill]
   \<and> bridgeRestartCounter (useInput_handler [] esc_key busy_without_agents) = 1"
proof -
  have h: "isLoading busy_without_agents" "escPressedOnce busy_without_agents"
    "is_esc_press [] esc_key"
    "find (\<lambda>a. status a = Active) (agents busy_without_agents) = None"
    by (simp_all add: busy_without_agents_def initial_session_def is_esc_press_def esc_key_def js_def)
  from esc_gesture_without_active_agent[OF h] h show ?thesis
    by (simp add: busy_without_agents_def initial_session_def)
qed

section \<open>The stale-message guard\<close>

definition operator_start :: msg where
  "operator_start =
     M_agent_event \<lparr>ap_agent = js ''operator'', ap_event = Ev_start, ap_status = None,
                    ap_output = None, ap_is_error = None\<rparr>"

definition interrupted_session :: session where
  "interrupted_session = initial_session\<lparr>isInterruptedRef := True\<rparr>"

text \<open>
  Claim C4. While the interrupted flag is set, dispatching a message whose discriminator
  is neither \<open>checkpoint_info\<close> nor \<open>system_ready\<close> returns the session state as it was:
  every field, the log, the agents, the status, the task progress and the refs included.
\<close>

theorem interrupted_flag_drops_messages:
  assumes "isInterruptedRef s"
    and "msg_type m \<noteq> js ''checkpoint_info''"
    and "msg_type m \<noteq> js ''system_ready''"
  shows "handleBridgeMessage cfg m s = s"
  using assms by (simp add: handleBridgeMessage_def)

theorem interrupted_flag_drops_messages_witness:
  "isInterruptedRef interrupted_session
   \<and> msg_type operator_start \<noteq> js ''checkpoint_info''
   \<and> msg_type operator_start \<noteq> js ''system_ready''
   \<and> handleBridgeMessage cfg0 operator_start interrupted_session = interrupted_session
   \<and> committedItems (handleBridgeMessage cfg0 operator_start initial_session)
       = [header_item (js ''operator-header'') T_agent_header (js ''operator'')]"
proof -
  have h: "isInterruptedRef interrupted_session"
    "msg_type operator_start \<noteq> js ''checkpoint_info''"
    "msg_type operator_start \<noteq> js ''system_ready''"
    by (simp_all add: interrupted_session_def initial_session_def operator_start_def js_def)
  have live: "committedItems (handleBridgeMessage cfg0 operator_start initial_session)
       = [header_item (js ''operator-header'') T_agent_header (js ''operator'')]"
    by (simp add: handleBridgeMessage_def operator_start_def initial_session_def
          handleAgentEventMessage_def agent_event_log_def agent_start_def ensureHeader_def
          currentTaskNum_def has_id_def Let_def js_def)
  from interrupted_flag_drops_messages[OF h, of cfg0] h live show ?thesis by simp
qed

text \<open>
  The session after the interrupt gesture: in an interactive session that is busy with
  the primary worker active, ESC is pressed, and again 1200 ms later. A message the
  killed worker had written before it died can still arrive after that.
\<close>

definition after_interrupt :: session where
  "after_interrupt =
     key_press cfg0 [] esc_key (elapse 1200 (key_press cfg0 [] esc_key busy_with_operator))"

lemma after_interrupt_eq:
  "after_interrupt =
     initial_session
       \<lparr>isLoading := False, bridgeRef := False, agents := [], now := 6200,
        committedItems :=
          [\<lparr>item_id = js ''interrupt-6200'', item_type = T_log,
            content = C_text (Some (10007 # js '' Run Interrupted'')),
            agentName = Some (js ''operator''), isError = None\<rparr>],
        effects := [Kill], bridgeRestartCounter := 1\<rparr>"
  by (simp add: after_interrupt_def key_press_def cfg0_def busy_with_operator_def
        initial_session_def operator_active_def esc_key_def useInput_handler_def elapse_def
        fire_esc_timer_def fire_exit_timer_def interrupt_def Let_def kill_bridge_def
        applyInterruptResetState_def interrupted_item_def show_nat.simps js_def)

text \<open>
  Claim C3, on the code. The interrupt gesture kills the worker and bumps the restart
  counter, but it leaves the stale-message guard unset: the partial reset ends by
  assigning \<open>false\<close> to it, and no statement assigns \<open>true\<close>. A start event of the killed
  primary worker that arrives after the interrupt is therefore not dropped: it adds a
  header to the log and puts the agent back into the registry.
\<close>

theorem stale_message_after_interrupt:
  "bridgeRestartCounter after_interrupt = 1
   \<and> effects after_interrupt = [Kill]
   \<and> agents after_interrupt = []
   \<and> map item_id (committedItems after_interrupt) = [js ''interrupt-6200'']
   \<and> isInterruptedRef after_interrupt = False
   \<and> map item_id (committedItems (handleBridgeMessage cfg0 operator_start after_interrupt))
       = [js ''interrupt-6200'', js ''operator-header'']
   \<and> map name (agents (handleBridgeMessage cfg0 operator_start after_interrupt))
       = [js ''operator'']
   \<and> handleBridgeMessage cfg0 operator_start after_interrupt \<noteq> after_interrupt"
proof -
  have a: "bridgeRestartCounter after_interrupt = 1" "effects after_interrupt = [Kill]"
    "agents after_interrupt = []"
    "map item_id (committedItems after_interrupt) = [js ''interrupt-6200'']"
    "isInterruptedRef after_interrupt = False"
    by (simp_all add: after_interrupt_eq initial_session_def)
  have b: "map item_id (committedItems (handleBridgeMessage cfg0 operator_start after_interrupt))
       = [js ''interrupt-6200'', js ''operator-header'']"
    by (simp add: after_interrupt_eq handleBridgeMessage_def operator_start_def initial_session_def
          handleAgentEventMessage_def agent_event_log_def agent_start_def ensureHeader_def
          currentTaskNum_def has_id_def header_item_def Let_def js_def)
  have c: "map name (agents (handleBridgeMessage cfg0 operator_start after_interrupt))
       = [js ''operator'']"
    by (simp add: after_interrupt_eq handleBridgeMessage_def operator_start_def initial_session_def
          handleAgentEventMessage_def agent_event_log_def agent_start_def update_agents_def
          Let_def js_def)
  have "agents (handleBridgeMessage cfg0 operator_start after_interrupt) \<noteq> agents after_interrupt"
    using c a(3) by auto
  then have d: "handleBridgeMessage cfg0 operator_start after_interrupt \<noteq> after_interrupt"
    by auto
  from a b c d show ?thesis by blast
qed

section \<open>Headers after a resume\<close>

text \<open>
  A checkpoint of a two-task plan: task 1 is completed, and task 2 is in progress with
  one recorded primary-worker item. The worker reports it on a resume, with the task
  progress at task 2 of 2.
\<close>

definition history_one_done :: history where
  "history_one_done =
     \<lparr>h_plan = Some [js ''relax the cell'', js ''compute the bands''],
      h_full_plan_text = None,
      h_completed_steps = Some [js ''relax the cell''],
      h_operator_items_by_task =
        (\<lambda>i. if i = 1 then Some [\<lparr>ri_type = T_tool, ri_content = C_text (Some (js ''Wrote bands.in'')),
                                    ri_isError = Some False\<rparr>] else None),
      h_evaluator_items_by_task = (\<lambda>i. None),
      h_step_results = (\<lambda>i. None),
      h_current_task = Some 2,
      h_total_tasks = Some 2\<rparr>"

definition resume_payload :: checkpoint_payload where
  "resume_payload =
     \<lparr>cp_exists = True, cp_previous_input = Some (js ''bands of Si''),
      cp_history = Some history_one_done\<rparr>"

definition resumed_session :: session where
  "resumed_session =
     handleBridgeMessage cfg0 (M_checkpoint_info resume_payload) spawned_session"

lemma resumed_log:
  "map (\<lambda>item. (item_id item, item_type item)) (committedItems resumed_session) =
     [(js ''strategist-header'', T_agent_header),
      (js ''checkpoint-history-plan'', T_plan),
      (js ''strategist-complete'', T_agent_status),
      (js ''operator-header-task1-history'', T_agent_header),
      (js ''operator-task-panel-1-history'', T_active_task_panel),
      (js ''evaluator-header-task1-history'', T_evaluator_header),
      (js ''evaluator-status-task1-history'', T_evaluator_status),
      (js ''operator-header-task2-history'', T_agent_header),
      (js ''operator-task-panel-2-history'', T_active_task_panel),
      (js ''operator-item-task2-0-history'', T_tool)]"
  by (simp add: resumed_session_def spawned_session_def
        buildHistoryItems_def history_plan_items_def remaining_task_items_def
        history_one_done_def Let_def or_empty_def
        completed_tasks_loop.simps completed_task_body_def push_task_panel_def header_item_def
        task_panel_item_def text_item_def show_nat.simps js_def
        resume_payload_def cfg0_def
        initial_session_def handleBridgeMessage_def handleCheckpointInfo_def restore_history_def
        restored_plan_def restored_items_def restored_progress_def hasStrategistContent_def)

lemma resumed_then_start_log:
  "map (\<lambda>item. (item_id item, item_type item))
     (committedItems (handleBridgeMessage cfg0 operator_start resumed_session)) =
     [(js ''strategist-header'', T_agent_header),
      (js ''checkpoint-history-plan'', T_plan),
      (js ''strategist-complete'', T_agent_status),
      (js ''operator-header-task1-history'', T_agent_header),
      (js ''operator-task-panel-1-history'', T_active_task_panel),
      (js ''evaluator-header-task1-history'', T_evaluator_header),
      (js ''evaluator-status-task1-history'', T_evaluator_status),
      (js ''operator-header-task2-history'', T_agent_header),
      (js ''operator-task-panel-2-history'', T_active_task_panel),
      (js ''operator-item-task2-0-history'', T_tool),
      (js ''operator-header-task2'', T_agent_header),
      (js ''operator-task-panel-2'', T_active_task_panel)]"
  by (simp add: resumed_session_def spawned_session_def
        buildHistoryItems_def history_plan_items_def remaining_task_items_def
        history_one_done_def Let_def or_empty_def
        completed_tasks_loop.simps completed_task_body_def push_task_panel_def header_item_def
        task_panel_item_def text_item_def show_nat.simps js_def
        resume_payload_def operator_start_def cfg0_def
        initial_session_def handleBridgeMessage_def handleCheckpointInfo_def restore_history_def
        restored_plan_def restored_items_def restored_progress_def hasStrategistContent_def
        handleAgentEventMessage_def agent_event_log_def agent_start_def ensureHeader_def
        currentTaskNum_def has_id_def update_agents_def)

text \<open>
  Claim C1, on the code. The reconstruction writes the primary-worker header of task 2
  under the id \<open>operator-header-task2-history\<close>. A live start event of the primary worker
  then looks for the id \<open>operator-header-task2\<close>, finds none, and appends a second
  primary-worker header, with a second task box, for task 2: the log holds two header
  items for the pair (operator, 2).
\<close>

theorem headers_after_resume:
  "taskProgressRef resumed_session = Some \<lparr>current = 2, total = 2\<rparr>
   \<and> map item_id (filter (\<lambda>item. item_type item = T_agent_header \<and>
                                 agentName item = Some (js ''operator''))
        (committedItems resumed_session))
       = [js ''operator-header-task1-history'', js ''operator-header-task2-history'']
   \<and> map item_id (filter (\<lambda>item. item_type item = T_agent_header \<and>
                                 agentName item = Some (js ''operator''))
        (committedItems (handleBridgeMessage cfg0 operator_start resumed_session)))
       = [js ''operator-header-task1-history'', js ''operator-header-task2-history'',
          js ''operator-header-task2'']
   \<and> map (\<lambda>item. (item_id item, item_type item))
        (committedItems (handleBridgeMessage cfg0 operator_start resumed_session)) =
       [(js ''strategist-header'', T_agent_header),
        (js ''checkpoint-history-plan'', T_plan),
        (js ''strategist-complete'', T_agent_status),
        (js ''operator-header-task1-history'', T_agent_header),
        (js ''operator-task-panel-1-history'', T_active_task_panel),
        (js ''evaluator-header-task1-history'', T_evaluator_header),
        (js ''evaluator-status-task1-history'', T_evaluator_status),
        (js ''operator-header-task2-history'', T_agent_header),
        (js ''operator-task-panel-2-history'', T_active_task_panel),
        (js ''operator-item-task2-0-history'', T_tool),
        (js ''operator-header-task2'', T_agent_header),
        (js ''operator-task-panel-2'', T_active_task_panel)]"
proof -
  have a: "taskProgressRef resumed_session = Some \<lparr>current = 2, total = 2\<rparr>"
    by (simp add: resumed_session_def spawned_session_def resume_payload_def history_one_done_def
          cfg0_def initial_session_def handleBridgeMessage_def handleCheckpointInfo_def
          restore_history_def restored_progress_def Let_def js_def)
  have b: "map item_id (filter (\<lambda>item. item_type item = T_agent_header \<and>
                                 agentName item = Some (js ''operator''))
        (committedItems resumed_session))
       = [js ''operator-header-task1-history'', js ''operator-header-task2-history'']"
    by (simp add: resumed_session_def spawned_session_def
        buildHistoryItems_def history_plan_items_def remaining_task_items_def
        history_one_done_def Let_def or_empty_def
        completed_tasks_loop.simps completed_task_body_def push_task_panel_def header_item_def
        task_panel_item_def text_item_def show_nat.simps js_def
        resume_payload_def cfg0_def
        initial_session_def handleBridgeMessage_def handleCheckpointInfo_def restore_history_def
        restored_plan_def restored_items_def restored_progress_def hasStrategistContent_def)
  have c: "map item_id (filter (\<lambda>item. item_type item = T_agent_header \<and>
                                 agentName item = Some (js ''operator''))
        (committedItems (handleBridgeMessage cfg0 operator_start resumed_session)))
       = [js ''operator-header-task1-history'', js ''operator-header-task2-history'',
          js ''operator-header-task2'']"
    by (simp add: resumed_session_def spawned_session_def
        buildHistoryItems_def history_plan_items_def remaining_task_items_def
        history_one_done_def Let_def or_empty_def
        completed_tasks_loop.simps completed_task_body_def push_task_panel_def header_item_def
        task_panel_item_def text_item_def show_nat.simps js_def
        resume_payload_def operator_start_def cfg0_def
        initial_session_def handleBridgeMessage_def handleCheckpointInfo_def restore_history_def
        restored_plan_def restored_items_def restored_progress_def hasStrategistContent_def
        handleAgentEventMessage_def agent_event_log_def agent_start_def ensureHeader_def
        currentTaskNum_def has_id_def update_agents_def)
  from a b c resumed_then_start_log show ?thesis by blast
qed

section \<open>Checkpoint reconstruction: the block of a completed task\<close>



























section \<open>Evaluation of the text utilities\<close>

text \<open>
  The definitions the evaluations below unfold: the string helpers, the tables of
  \<open>applyLatexTransformations\<close>, and the parts of \<open>parseStyledSegments\<close>.
\<close>

lemmas string_eval =
  js_def Lit_def NotLit_def LitI_def Plus_def Rep13_def re_test_def replace_first_def
  replace_all_def const_repl_def trim_def slice_def is_space_def is_digit_def is_word_def
  is_line_terminator_def group1_def group2_def endsWith_def Let_def

lemmas latex_eval =
  applyLatexTransformations_def SYMBOL_MAP_def signed_digits_def superscript_char_def
  subscript_char_def

lemmas segment_eval =
  parseStyledSegments_def find_markers_def exec_all_def code_re_def bold_re_def
  unclosed_bold_re_def overlaps_def marker_content_def

subsection \<open>The LaTeX example\<close>

text \<open>
  Claim C8. \<open>applyLatexTransformations\<close> applied to \<open>E_{cut} = 80 Ry, \alpha \approx 1\<close>
  (the backslash is the character 92) returns \<open>Ecut = 80 Ry, \<alpha> \<approx> 1\<close>, where \<open>\<alpha>\<close> is U+03B1
  (945) and \<open>\<approx>\<close> is U+2248 (8776).
\<close>

theorem latex_example:
  "applyLatexTransformations
     (js ''E_{cut} = 80 Ry, '' @ [92] @ js ''alpha '' @ [92] @ js ''approx 1'')
   = js ''Ecut = 80 Ry, '' @ [945] @ js '' '' @ [8776] @ js '' 1''"
  by (simp add: string_eval latex_eval)

subsection \<open>The task line example\<close>

definition task_line :: jstring where
  "task_line = js ''### Task 2: Optimize the **lattice** parameter''"

definition task_text :: jstring where
  "task_text = js ''**Optimize the **lattice** parameter**''"

lemma task_no_braille: "replace_all (Lit 10240) (const_repl [32]) task_line = task_line"
  by (simp add: task_line_def string_eval)

lemma task_no_blockquote: "strip_blockquote task_line = task_line"
  by (simp add: task_line_def strip_blockquote_def string_eval)

lemma task_prefix: "match_task task_line = Some (js ''### Task 2: '')"
  by (simp add: task_line_def match_task_def taskRegex_def braille_or_space_def colon_class_def
        task_word_def string_eval)

lemma task_stripped: "strip_task_prefix (js ''### Task 2: '') task_line = task_text"
  by (simp add: task_line_def task_text_def strip_task_prefix_def string_eval)

lemma task_no_header: "re_test headerRegex task_text = False"
  by (simp add: task_text_def headerRegex_def braille_or_space_def string_eval)

lemma task_no_bullet: "normalize_bullets task_text = task_text"
  by (simp add: task_text_def normalize_bullets_def bulletRegex_def boldStartRegex_def
        numberedRegex_def dotBulletRegex_def string_eval)

lemma task_parsed:
  "parseStyledSegments task_text =
     [\<lparr>seg_text = js ''Optimize the '', seg_style = Bold_style\<rparr>,
      \<lparr>seg_text = js ''lattice'', seg_style = Normal_style\<rparr>,
      \<lparr>seg_text = js '' parameter'', seg_style = Bold_style\<rparr>]"
  by (simp add: task_text_def string_eval segment_eval)

lemma task_latex:
  "applyLatexTransformations (js ''Optimize the '') = js ''Optimize the ''"
  "applyLatexTransformations (js ''lattice'') = js ''lattice''"
  "applyLatexTransformations (js '' parameter'') = js '' parameter''"
  by (simp_all add: string_eval latex_eval)

lemma task_transformed:
  "map (\<lambda>seg. if seg_style seg = Code_style then seg
               else seg\<lparr>seg_text := applyLatexTransformations (seg_text seg)\<rparr>)
       (parseStyledSegments task_text)
   = [\<lparr>seg_text = js ''Optimize the '', seg_style = Bold_style\<rparr>,
      \<lparr>seg_text = js ''lattice'', seg_style = Normal_style\<rparr>,
      \<lparr>seg_text = js '' parameter'', seg_style = Bold_style\<rparr>]"
  by (simp add: task_parsed task_latex)

lemma task_plain:
  "plain_text_of
     [\<lparr>seg_text = js ''Optimize the '', seg_style = Bold_style\<rparr>,
      \<lparr>seg_text = js ''lattice'', seg_style = Normal_style\<rparr>,
      \<lparr>seg_text = js '' parameter'', seg_style = Bold_style\<rparr>]
   = js ''Optimize the lattice  parameter''"
  by (simp add: plain_text_of_def needs_space_def opens_bracket_def is_space_def js_def)

lemma task_formatted:
  "formatLine task_line True False =
     \<lparr>plainText = js ''Optimize the lattice  parameter'', isHeader = False, isTask = True,
      addEmptyBefore = True,
      segments =
        [\<lparr>seg_text = js ''Optimize the '', seg_style = Bold_style\<rparr>,
         \<lparr>seg_text = js ''lattice'', seg_style = Normal_style\<rparr>,
         \<lparr>seg_text = js '' parameter'', seg_style = Bold_style\<rparr>]\<rparr>"
  unfolding formatLine_def Let_def
  by (simp add: task_no_braille task_no_blockquote task_prefix task_stripped task_no_header
        task_no_bullet task_transformed task_plain)

text \<open>
  Claim C5, on the code. For the line \<open>### Task 2: Optimize the **lattice** parameter\<close> with
  \<open>stripTaskPrefix\<close> set, \<open>formatLine\<close> does return \<open>isTask\<close> and \<open>addEmptyBefore\<close> set. But it
  wraps the description, which already holds a bold span, in a second pair of \<open>**\<close>; the
  segmentation then pairs the outer markers with the inner ones, so the result has two
  bold segments, \<open>Optimize the\<close> and \<open>parameter\<close>, with \<open>lattice\<close> between them in normal style,
  and the plain text has two spaces before \<open>parameter\<close>.
\<close>

theorem formatLine_task_example:
  "formatLine (js ''### Task 2: Optimize the **lattice** parameter'') True False =
     \<lparr>plainText = js ''Optimize the lattice  parameter'', isHeader = False, isTask = True,
      addEmptyBefore = True,
      segments =
        [\<lparr>seg_text = js ''Optimize the '', seg_style = Bold_style\<rparr>,
         \<lparr>seg_text = js ''lattice'', seg_style = Normal_style\<rparr>,
         \<lparr>seg_text = js '' parameter'', seg_style = Bold_style\<rparr>]\<rparr>
   \<and> plainText (formatLine (js ''### Task 2: Optimize the **lattice** parameter'') True False)
       \<noteq> js ''Optimize the lattice parameter''
   \<and> map seg_text (filter (\<lambda>seg. seg_style seg = Bold_style)
         (segments (formatLine (js ''### Task 2: Optimize the **lattice** parameter'') True False)))
       = [js ''Optimize the '', js '' parameter'']"
proof -
  have d: "js ''Optimize the lattice  parameter'' \<noteq> js ''Optimize the lattice parameter''"
    by (simp add: js_def)
  show ?thesis
    using task_formatted d by (simp add: task_line_def)
qed

subsection \<open>The wrapping example\<close>

text \<open>The three branches of one turn of the \<open>while\<close> loop.\<close>

lemma wrap_loop_fits:
  assumes "\<not> contentWidth < currentLength w + prefixLen + length segText"
  shows "wrap_loop fmt contentWidth st segText prefixLen w = (segText, prefixLen, w)"
  using assms by (subst wrap_loop.simps) simp

lemma wrap_loop_flush:
  assumes "contentWidth < currentLength w + prefixLen + length segText"
    and "lastIndexOf_space segText (contentWidth - currentLength w - prefixLen) = None
         \<or> lastIndexOf_space segText (contentWidth - currentLength w - prefixLen) = Some 0"
    and "currentLength w \<noteq> 0"
  shows "wrap_loop fmt contentWidth st segText prefixLen w
         = wrap_loop fmt contentWidth st segText 0 (pushLine fmt w)"
  using assms by (subst wrap_loop.simps) (auto simp add: Let_def)

lemma wrap_loop_split:
  assumes "contentWidth < currentLength w + prefixLen + length segText"
    and "lastIndexOf_space segText (contentWidth - currentLength w - prefixLen) = Some i"
    and "0 < i" and "take i segText \<noteq> []"
  shows "wrap_loop fmt contentWidth st segText prefixLen w
         = wrap_loop fmt contentWidth st (drop (i + 1) segText) 0
             (pushLine fmt
                (w\<lparr>currentSegments := currentSegments w @ [\<lparr>seg_text = take i segText, seg_style = st\<rparr>],
                   currentLength := currentLength w + prefixLen + length (take i segText),
                   breaks := breaks w @ [(st, segText, i)]\<rparr>))"
  using assms by (subst wrap_loop.simps) (simp add: Let_def)

definition wrap_line :: jstring where
  "wrap_line = js ''The quantity `10.5` cannot fit''"

definition wrap_segs :: "TextSegment list" where
  "wrap_segs =
     [\<lparr>seg_text = js ''The quantity '', seg_style = Normal_style\<rparr>,
      \<lparr>seg_text = js ''10.5'', seg_style = Code_style\<rparr>,
      \<lparr>seg_text = js '' cannot fit'', seg_style = Normal_style\<rparr>]"

definition wrap_fmt :: formatted where
  "wrap_fmt =
     \<lparr>plainText = js ''The quantity 10.5 cannot fit'', isHeader = False, isTask = False,
      addEmptyBefore = False, segments = wrap_segs\<rparr>"

definition plain_line :: "jstring \<Rightarrow> seg_style \<Rightarrow> ProcessedLine" where
  "plain_line txt st =
     \<lparr>pl_plainText = txt, pl_segments = [\<lparr>seg_text = txt, seg_style = st\<rparr>],
      pl_isHeader = False, pl_isTask = False\<rparr>"

lemma wrap_spaces:
  "lastIndexOf_space (js ''The quantity '') 10 = Some 3"
  "lastIndexOf_space (js ''10.5'') (Suc 0) = None"
  "lastIndexOf_space (js '' cannot fit'') 6 = Some 0"
  "lastIndexOf_space (js '' cannot fit'') 10 = Some 7"
  by (simp_all add: lastIndexOf_space_def js_def upt_rec)

lemma wrap_lengths:
  "length (js ''The quantity '') = 13" "length (js ''quantity '') = 9"
  "length (js ''10.5'') = 4" "length (js '' cannot fit'') = 11" "length (js ''fit'') = 3"
  "length (js ''The'') = 3" "length (js '' cannot'') = 7"
  "length (js ''The quantity 10.5 cannot fit'') = 28"
  by (simp_all add: js_def)

lemma wrap_parts:
  "take 3 (js ''The quantity '') = js ''The''" "drop 4 (js ''The quantity '') = js ''quantity ''"
  "take 7 (js '' cannot fit'') = js '' cannot''" "drop 8 (js '' cannot fit'') = js ''fit''"
  "js ''The'' \<noteq> []" "js '' cannot'' \<noteq> []" "js ''quantity '' \<noteq> []" "js ''10.5'' \<noteq> []"
  "js ''fit'' \<noteq> []"
  by (simp_all add: js_def)

lemma wrap_no_space:
  "needs_space \<lparr>seg_text = js ''quantity '', seg_style = Normal_style\<rparr>
               \<lparr>seg_text = js ''10.5'', seg_style = Code_style\<rparr> = False"
  by (simp add: needs_space_def is_space_def js_def)

lemma wrap_plain: "plain_text_of [\<lparr>seg_text = txt, seg_style = st\<rparr>] = txt"
  by (simp add: plain_text_of_def)

definition wrap_state1 :: wrap_state where
  "wrap_state1 =
     \<lparr>results = [plain_line (js ''The'') Normal_style],
      currentSegments = [], currentLength = 0, isFirst = False,
      breaks = [(Normal_style, js ''The quantity '', 3)]\<rparr>"

definition wrap_state2 :: wrap_state where
  "wrap_state2 =
     \<lparr>results = [plain_line (js ''The'') Normal_style, plain_line (js ''quantity '') Normal_style],
      currentSegments = [], currentLength = 0, isFirst = False,
      breaks = [(Normal_style, js ''The quantity '', 3)]\<rparr>"

definition wrap_state3 :: wrap_state where
  "wrap_state3 =
     \<lparr>results = [plain_line (js ''The'') Normal_style, plain_line (js ''quantity '') Normal_style,
                 plain_line (js ''10.5'') Code_style, plain_line (js '' cannot'') Normal_style],
      currentSegments = [], currentLength = 0, isFirst = False,
      breaks = [(Normal_style, js ''The quantity '', 3), (Normal_style, js '' cannot fit'', 7)]\<rparr>"

lemma wrap_first:
  "wrap_loop wrap_fmt 10 Normal_style (js ''The quantity '') 0
     \<lparr>results = [], currentSegments = [], currentLength = 0, isFirst = True, breaks = []\<rparr>
   = (js ''quantity '', 0, wrap_state1)"
  apply (subst wrap_loop_split[where i = 3])
      apply (simp_all add: wrap_lengths wrap_spaces wrap_parts)
  apply (subst wrap_loop_fits)
   apply (simp_all add: pushLine_def wrap_lengths wrap_fmt_def wrap_state1_def plain_line_def
            wrap_plain)
  done

lemma wrap_second:
  "wrap_loop wrap_fmt 10 Code_style (js ''10.5'') 0
     (wrap_state1\<lparr>currentSegments := [\<lparr>seg_text = js ''quantity '', seg_style = Normal_style\<rparr>],
                  currentLength := 9\<rparr>)
   = (js ''10.5'', 0, wrap_state2)"
  apply (subst wrap_loop_flush)
     apply (simp_all add: wrap_state1_def wrap_lengths wrap_spaces)
  apply (subst wrap_loop_fits)
   apply (simp_all add: pushLine_def wrap_lengths wrap_fmt_def wrap_state2_def plain_line_def
            wrap_plain)
  done

lemma wrap_third:
  "wrap_loop wrap_fmt 10 Normal_style (js '' cannot fit'') 0
     (wrap_state2\<lparr>currentSegments := [\<lparr>seg_text = js ''10.5'', seg_style = Code_style\<rparr>],
                  currentLength := 4\<rparr>)
   = (js ''fit'', 0, wrap_state3)"
  apply (subst wrap_loop_flush)
     apply (simp_all add: wrap_state2_def wrap_lengths wrap_spaces)
  apply (subst wrap_loop_split[where i = 7])
      apply (simp_all add: pushLine_def wrap_lengths wrap_spaces wrap_parts)
  apply (subst wrap_loop_fits)
   apply (simp_all add: pushLine_def wrap_lengths wrap_fmt_def wrap_state3_def plain_line_def
            wrap_plain)
  done

lemma wrap_segments_step:
  assumes "currentSegments w = [] \<or> \<not> needs_space (last (currentSegments w)) segment"
    and "wrap_loop fmt contentWidth (seg_style segment) (seg_text segment) 0 w = (segText, 0, w1)"
    and "segText \<noteq> []"
    and "w2 = w1\<lparr>currentSegments := currentSegments w1 @
                      [\<lparr>seg_text = segText, seg_style = seg_style segment\<rparr>],
                  currentLength := currentLength w1 + length segText\<rparr>"
  shows "wrap_segments fmt contentWidth (segment # rest) w = wrap_segments fmt contentWidth rest w2"
  using assms by (cases "currentSegments w") (auto simp add: Let_def)

definition wrap_mid1 :: wrap_state where
  "wrap_mid1 =
     wrap_state1\<lparr>currentSegments := [\<lparr>seg_text = js ''quantity '', seg_style = Normal_style\<rparr>],
                 currentLength := 9\<rparr>"

definition wrap_mid2 :: wrap_state where
  "wrap_mid2 =
     wrap_state2\<lparr>currentSegments := [\<lparr>seg_text = js ''10.5'', seg_style = Code_style\<rparr>],
                 currentLength := 4\<rparr>"

definition wrap_mid3 :: wrap_state where
  "wrap_mid3 =
     wrap_state3\<lparr>currentSegments := [\<lparr>seg_text = js ''fit'', seg_style = Normal_style\<rparr>],
                 currentLength := 3\<rparr>"

lemma wrap_all:
  "wrap_formatted wrap_fmt 10
   = \<lparr>results = [plain_line (js ''The'') Normal_style, plain_line (js ''quantity '') Normal_style,
                 plain_line (js ''10.5'') Code_style, plain_line (js '' cannot'') Normal_style,
                 plain_line (js ''fit'') Normal_style],
      currentSegments = [], currentLength = 0, isFirst = False,
      breaks = [(Normal_style, js ''The quantity '', 3), (Normal_style, js '' cannot fit'', 7)]\<rparr>"
proof -
  let ?s1 = "\<lparr>seg_text = js ''The quantity '', seg_style = Normal_style\<rparr>"
  let ?s2 = "\<lparr>seg_text = js ''10.5'', seg_style = Code_style\<rparr>"
  let ?s3 = "\<lparr>seg_text = js '' cannot fit'', seg_style = Normal_style\<rparr>"
  let ?w0 = "\<lparr>results = [], currentSegments = [], currentLength = 0, isFirst = True, breaks = []\<rparr>"
  have seg: "segments wrap_fmt = [?s1, ?s2, ?s3]"
    by (simp add: wrap_fmt_def wrap_segs_def)
  have 1: "wrap_segments wrap_fmt 10 [?s1, ?s2, ?s3] ?w0 = wrap_segments wrap_fmt 10 [?s2, ?s3] wrap_mid1"
  proof (rule wrap_segments_step)
    show "currentSegments ?w0 = [] \<or> \<not> needs_space (last (currentSegments ?w0)) ?s1"
      by simp
    show "wrap_loop wrap_fmt 10 (seg_style ?s1) (seg_text ?s1) 0 ?w0 = (js ''quantity '', 0, wrap_state1)"
      using wrap_first by simp
    show "js ''quantity '' \<noteq> []"
      by (simp add: wrap_parts)
    show "wrap_mid1 = wrap_state1\<lparr>currentSegments := currentSegments wrap_state1 @
                      [\<lparr>seg_text = js ''quantity '', seg_style = seg_style ?s1\<rparr>],
                  currentLength := currentLength wrap_state1 + length (js ''quantity '')\<rparr>"
      by (simp add: wrap_mid1_def wrap_state1_def wrap_lengths)
  qed
  have 2: "wrap_segments wrap_fmt 10 [?s2, ?s3] wrap_mid1 = wrap_segments wrap_fmt 10 [?s3] wrap_mid2"
  proof (rule wrap_segments_step)
    show "currentSegments wrap_mid1 = [] \<or> \<not> needs_space (last (currentSegments wrap_mid1)) ?s2"
      by (simp add: wrap_mid1_def wrap_no_space)
    show "wrap_loop wrap_fmt 10 (seg_style ?s2) (seg_text ?s2) 0 wrap_mid1 = (js ''10.5'', 0, wrap_state2)"
      using wrap_second by (simp add: wrap_mid1_def)
    show "js ''10.5'' \<noteq> []"
      by (simp add: wrap_parts)
    show "wrap_mid2 = wrap_state2\<lparr>currentSegments := currentSegments wrap_state2 @
                      [\<lparr>seg_text = js ''10.5'', seg_style = seg_style ?s2\<rparr>],
                  currentLength := currentLength wrap_state2 + length (js ''10.5'')\<rparr>"
      by (simp add: wrap_mid2_def wrap_state2_def wrap_lengths)
  qed
  have 3: "wrap_segments wrap_fmt 10 [?s3] wrap_mid2 = wrap_segments wrap_fmt 10 [] wrap_mid3"
  proof (rule wrap_segments_step)
    show "currentSegments wrap_mid2 = [] \<or> \<not> needs_space (last (currentSegments wrap_mid2)) ?s3"
      by (simp add: needs_space_def)
    show "wrap_loop wrap_fmt 10 (seg_style ?s3) (seg_text ?s3) 0 wrap_mid2 = (js ''fit'', 0, wrap_state3)"
      using wrap_third by (simp add: wrap_mid2_def)
    show "js ''fit'' \<noteq> []"
      by (simp add: wrap_parts)
    show "wrap_mid3 = wrap_state3\<lparr>currentSegments := currentSegments wrap_state3 @
                      [\<lparr>seg_text = js ''fit'', seg_style = seg_style ?s3\<rparr>],
                  currentLength := currentLength wrap_state3 + length (js ''fit'')\<rparr>"
      by (simp add: wrap_mid3_def wrap_state3_def wrap_lengths)
  qed
  have "wrap_segments wrap_fmt 10 (segments wrap_fmt) ?w0 = wrap_mid3"
    unfolding seg 1 2 3 by simp
  then show ?thesis
    by (simp add: wrap_formatted_def Let_def pushLine_def wrap_mid3_def wrap_state3_def wrap_fmt_def
          plain_line_def wrap_plain)
qed

lemma wrap_line_formatted: "formatLine wrap_line False False = wrap_fmt"
proof -
  have 1: "replace_all (Lit 10240) (const_repl [32]) wrap_line = wrap_line"
    by (simp add: wrap_line_def string_eval)
  have 2: "strip_blockquote wrap_line = wrap_line"
    by (simp add: wrap_line_def strip_blockquote_def string_eval)
  have 3: "match_task wrap_line = None"
    by (simp add: wrap_line_def match_task_def taskRegex_def bareTaskRegex_def braille_or_space_def
          colon_class_def task_word_def string_eval)
  have 4: "re_test headerRegex wrap_line = False"
    by (simp add: wrap_line_def headerRegex_def braille_or_space_def string_eval)
  have 5: "normalize_bullets wrap_line = wrap_line"
    by (simp add: wrap_line_def normalize_bullets_def bulletRegex_def boldStartRegex_def
          numberedRegex_def dotBulletRegex_def string_eval)
  have 6: "parseStyledSegments wrap_line = wrap_segs"
    by (simp add: wrap_line_def wrap_segs_def string_eval segment_eval)
  have 7: "applyLatexTransformations (js ''The quantity '') = js ''The quantity ''"
    "applyLatexTransformations (js '' cannot fit'') = js '' cannot fit''"
    by (simp_all add: string_eval latex_eval)
  have 8: "map (\<lambda>seg. if seg_style seg = Code_style then seg
                       else seg\<lparr>seg_text := applyLatexTransformations (seg_text seg)\<rparr>)
               wrap_segs = wrap_segs"
    by (simp add: wrap_segs_def 7)
  have 9: "plain_text_of wrap_segs = js ''The quantity 10.5 cannot fit''"
    by (simp add: wrap_segs_def plain_text_of_def needs_space_def opens_bracket_def
          is_space_def js_def)
  show ?thesis
    unfolding formatLine_def Let_def
    by (simp add: 1 2 3 4 5 6 8 9 wrap_fmt_def)
qed

text \<open>
  Claim C7. The line \<open>The quantity `10.5` cannot fit\<close> is formatted into the segments
  \<open>The quantity\<close> followed by a space (normal), \<open>10.5\<close> (code) and \<open>cannot fit\<close> preceded by a space
  (normal). Wrapped at content width 10 they give five lines: \<open>The\<close>, \<open>quantity\<close> with its
  space, the code segment \<open>10.5\<close> whole on a line of its own, \<open>cannot\<close> with its space, and
  \<open>fit\<close>. The loop splits a segment twice: the first normal segment at index 3 and the last
  normal segment at index 7, each the index of a space; it never splits the code segment.
\<close>

theorem wrap_keeps_code_segment:
  "wrap_formatted
     \<lparr>plainText = js ''The quantity 10.5 cannot fit'', isHeader = False, isTask = False,
      addEmptyBefore = False,
      segments =
        [\<lparr>seg_text = js ''The quantity '', seg_style = Normal_style\<rparr>,
         \<lparr>seg_text = js ''10.5'', seg_style = Code_style\<rparr>,
         \<lparr>seg_text = js '' cannot fit'', seg_style = Normal_style\<rparr>]\<rparr> 10
   = \<lparr>results =
        [\<lparr>pl_plainText = js ''The'',
          pl_segments = [\<lparr>seg_text = js ''The'', seg_style = Normal_style\<rparr>],
          pl_isHeader = False, pl_isTask = False\<rparr>,
         \<lparr>pl_plainText = js ''quantity '',
          pl_segments = [\<lparr>seg_text = js ''quantity '', seg_style = Normal_style\<rparr>],
          pl_isHeader = False, pl_isTask = False\<rparr>,
         \<lparr>pl_plainText = js ''10.5'',
          pl_segments = [\<lparr>seg_text = js ''10.5'', seg_style = Code_style\<rparr>],
          pl_isHeader = False, pl_isTask = False\<rparr>,
         \<lparr>pl_plainText = js '' cannot'',
          pl_segments = [\<lparr>seg_text = js '' cannot'', seg_style = Normal_style\<rparr>],
          pl_isHeader = False, pl_isTask = False\<rparr>,
         \<lparr>pl_plainText = js ''fit'',
          pl_segments = [\<lparr>seg_text = js ''fit'', seg_style = Normal_style\<rparr>],
          pl_isHeader = False, pl_isTask = False\<rparr>],
      currentSegments = [], currentLength = 0, isFirst = False,
      breaks = [(Normal_style, js ''The quantity '', 3), (Normal_style, js '' cannot fit'', 7)]\<rparr>
   \<and> js ''The quantity '' ! 3 = 32 \<and> js '' cannot fit'' ! 7 = 32
   \<and> segments (formatLine (js ''The quantity `10.5` cannot fit'') False False)
       = [\<lparr>seg_text = js ''The quantity '', seg_style = Normal_style\<rparr>,
          \<lparr>seg_text = js ''10.5'', seg_style = Code_style\<rparr>,
          \<lparr>seg_text = js '' cannot fit'', seg_style = Normal_style\<rparr>]
   \<and> map pl_segments (processSummaryLine (js ''The quantity `10.5` cannot fit'') 10 False False)
       = [[\<lparr>seg_text = js ''The'', seg_style = Normal_style\<rparr>],
          [\<lparr>seg_text = js ''quantity '', seg_style = Normal_style\<rparr>],
          [\<lparr>seg_text = js ''10.5'', seg_style = Code_style\<rparr>],
          [\<lparr>seg_text = js '' cannot'', seg_style = Normal_style\<rparr>],
          [\<lparr>seg_text = js ''fit'', seg_style = Normal_style\<rparr>]]"
proof -
  have a: "js ''The quantity '' ! 3 = 32" "js '' cannot fit'' ! 7 = 32"
    by (simp_all add: js_def)
  have b: "processSummaryLine wrap_line 10 False False = results (wrap_formatted wrap_fmt 10)"
    by (simp add: processSummaryLine_def wrap_line_formatted Let_def wrap_fmt_def wrap_lengths)
  have c: "segments (formatLine wrap_line False False) = wrap_segs"
    by (simp add: wrap_line_formatted wrap_fmt_def)
  show ?thesis
    using a b c wrap_all
    by (simp add: wrap_fmt_def wrap_segs_def wrap_line_def plain_line_def)
qed

section \<open>The segments of a line (parseStyledSegments)\<close>



text \<open>
  The spans of a line, found from left to right: where a span starts the search resumes
  behind it, elsewhere one character further. A span is the pair of the index of its
  first character and the index behind its last one.
\<close>

function spans :: "(jstring \<Rightarrow> nat option) \<Rightarrow> nat \<Rightarrow> jstring \<Rightarrow> (nat \<times> nat) list" where
  "spans at pos s =
     (if s = [] then []
      else (case at s of
              None \<Rightarrow> spans at (pos + 1) (tl s)
            | Some n \<Rightarrow> if 0 < n then (pos, pos + n) # spans at (pos + n) (drop n s) else []))"
  by pat_completeness auto
termination
  by (relation "measure (\<lambda>(at, pos, s). length s)") auto

declare spans.simps [simp del]













subsection \<open>The three expressions of the segmentation\<close>















lemma spans_Nil [simp]: "spans at pos [] = []"
  by (simp add: spans.simps)
































subsection \<open>Claim C6\<close>




end
